theory Spec2Isabelle
  imports Main "HOL-Library.Word" "HOL-Library.Finite_Map"
begin

section \<open>Shared types\<close>

text \<open>
  A Go \<^verbatim>\<open>error\<close> value as the two things the code asks of it:
  \<^verbatim>\<open>apierrors.IsNotFound(err)\<close> and \<^verbatim>\<open>err.Error()\<close>. A nil error is
  \<open>None\<close> of \<open>error option\<close>.
\<close>

datatype error = Error (IsNotFound: bool) (ErrorString: string)

section \<open>The status aggregator (package operator)\<close>

subsection \<open>Operator conditions\<close>

datatype ConditionStatus = ConditionTrue | ConditionFalse | ConditionUnknown

record OperatorCondition =
  Type :: string
  Status :: ConditionStatus
  Reason :: string
  Message :: string

text \<open>
  The status of the operator config. Only \<open>Conditions\<close> is touched by the code under
  study; the other fields stand for the rest of the object.
\<close>

record OperatorStatus =
  ObservedGeneration :: "64 word"
  Conditions :: "OperatorCondition list"
  Version :: string
  ReadyReplicas :: "32 word"

record ServiceCA =
  ServiceCA_Name :: string
  ServiceCA_Status :: OperatorStatus

text \<open>
  Modelled from the spec: the condition type tokens of \<^verbatim>\<open>operatorv1\<close>
  (\<^verbatim>\<open>OperatorStatusTypeAvailable\<close>, \<^verbatim>\<open>OperatorStatusTypeProgressing\<close>,
  \<^verbatim>\<open>OperatorStatusTypeFailing\<close>), which the repository imports and does not
  declare. The spec fixes them as the tokens Available, Progressing, Failing.
\<close>

definition OperatorStatusTypeAvailable :: string where
  "OperatorStatusTypeAvailable = ''Available''"

definition OperatorStatusTypeProgressing :: string where
  "OperatorStatusTypeProgressing = ''Progressing''"

definition OperatorStatusTypeFailing :: string where
  "OperatorStatusTypeFailing = ''Failing''"

text \<open>
  Modelled from the spec: \<^verbatim>\<open>v1helpers.FindOperatorCondition\<close> and
  \<^verbatim>\<open>v1helpers.SetOperatorCondition\<close>, helpers the repository imports. The spec's
  condition set holds each condition name at most once, and an update replaces the
  condition of that name in place, keeping the order of the others; a condition that is
  not there yet is appended. The transition time of a condition is not modelled.
\<close>

definition FindOperatorCondition :: "OperatorCondition list \<Rightarrow> string \<Rightarrow> OperatorCondition option" where
  "FindOperatorCondition conditions conditionType = find (\<lambda>c. Type c = conditionType) conditions"

fun SetOperatorCondition :: "OperatorCondition list \<Rightarrow> OperatorCondition \<Rightarrow> OperatorCondition list" where
  "SetOperatorCondition [] newCondition = [newCondition]"
| "SetOperatorCondition (c # cs) newCondition =
     (if Type c = Type newCondition then newCondition # cs
      else c # SetOperatorCondition cs newCondition)"

text \<open>The write \<^verbatim>\<open>SetOperatorCondition(&operatorConfig.Status.Conditions, cond)\<close>.\<close>

definition setCondition :: "ServiceCA \<Rightarrow> OperatorCondition \<Rightarrow> ServiceCA" where
  "setCondition operatorConfig cond =
     operatorConfig\<lparr>ServiceCA_Status := (ServiceCA_Status operatorConfig)
       \<lparr>Conditions := SetOperatorCondition (Conditions (ServiceCA_Status operatorConfig)) cond\<rparr>\<rparr>"

definition setFailingTrue :: "ServiceCA \<Rightarrow> string \<Rightarrow> string \<Rightarrow> ServiceCA" where
  "setFailingTrue operatorConfig reason message =
     setCondition operatorConfig
       \<lparr>Type = OperatorStatusTypeFailing, Status = ConditionTrue, Reason = reason, Message = message\<rparr>"

definition setFailingFalse :: "ServiceCA \<Rightarrow> string \<Rightarrow> ServiceCA" where
  "setFailingFalse operatorConfig reason =
     setCondition operatorConfig
       \<lparr>Type = OperatorStatusTypeFailing, Status = ConditionFalse, Reason = reason, Message = ''''\<rparr>"

definition setProgressingTrue :: "ServiceCA \<Rightarrow> string \<Rightarrow> string \<Rightarrow> ServiceCA" where
  "setProgressingTrue operatorConfig reason message =
     setCondition operatorConfig
       \<lparr>Type = OperatorStatusTypeProgressing, Status = ConditionTrue, Reason = reason, Message = message\<rparr>"

definition setAvailableTrue :: "ServiceCA \<Rightarrow> string \<Rightarrow> ServiceCA" where
  "setAvailableTrue operatorConfig reason =
     setCondition operatorConfig
       \<lparr>Type = OperatorStatusTypeAvailable, Status = ConditionTrue, Reason = reason, Message = ''''\<rparr>"

definition setProgressingFalse :: "ServiceCA \<Rightarrow> string \<Rightarrow> string \<Rightarrow> ServiceCA" where
  "setProgressingFalse operatorConfig reason message =
     setCondition operatorConfig
       \<lparr>Type = OperatorStatusTypeProgressing, Status = ConditionFalse, Reason = reason, Message = message\<rparr>"

definition setAvailableFalse :: "ServiceCA \<Rightarrow> string \<Rightarrow> string \<Rightarrow> ServiceCA" where
  "setAvailableFalse operatorConfig reason message =
     setCondition operatorConfig
       \<lparr>Type = OperatorStatusTypeAvailable, Status = ConditionFalse, Reason = reason, Message = message\<rparr>"

subsection \<open>Deployments\<close>

text \<open>
  The fields of \<^verbatim>\<open>appsv1.Deployment\<close> that the code reads. Replica counts are
  \<^verbatim>\<open>int32\<close>, generations \<^verbatim>\<open>int64\<close>; both are compared as signed numbers.
  \<open>Spec_Replicas\<close> is the pointer \<^verbatim>\<open>*int32\<close>, \<open>DeletionTimestamp\<close> the pointer
  \<^verbatim>\<open>*metav1.Time\<close> (a time as seconds).
\<close>

record Deployment =
  DeletionTimestamp :: "int option"
  Generation :: "64 word"
  Spec_Replicas :: "32 word option"
  Status_ObservedGeneration :: "64 word"
  Status_Replicas :: "32 word"
  Status_UpdatedReplicas :: "32 word"
  Status_AvailableReplicas :: "32 word"

definition isDeploymentStatusAvailable :: "Deployment \<Rightarrow> bool" where
  "isDeploymentStatusAvailable deploy \<longleftrightarrow> 0 <s Status_AvailableReplicas deploy"

definition isDeploymentStatusAvailableAndUpdated :: "Deployment \<Rightarrow> bool" where
  "isDeploymentStatusAvailableAndUpdated deploy \<longleftrightarrow>
     0 <s Status_AvailableReplicas deploy \<and>
     Generation deploy <=s Status_ObservedGeneration deploy \<and>
     Status_UpdatedReplicas deploy = Status_Replicas deploy"

definition isDeploymentStatusComplete :: "Deployment \<Rightarrow> bool" where
  "isDeploymentStatusComplete deploy \<longleftrightarrow>
     (let replicas = (case Spec_Replicas deploy of None \<Rightarrow> 1 | Some r \<Rightarrow> r) in
      Status_UpdatedReplicas deploy = replicas \<and>
      Status_Replicas deploy = replicas \<and>
      Status_AvailableReplicas deploy = replicas \<and>
      Generation deploy <=s Status_ObservedGeneration deploy)"

subsection \<open>The deployments client\<close>

text \<open>
  \<^verbatim>\<open>c.appsv1Client.Deployments(operatorclient.TargetNamespace)\<close>: the client of the
  one namespace the operator manages. \<open>store\<close> is what the store answers for a
  deployment name during one sync, \<open>gets\<close> the names it was asked for, in order.
\<close>

record deployments_client =
  store :: "string \<Rightarrow> error + Deployment"
  gets :: "string list"

definition Get :: "deployments_client \<Rightarrow> string \<Rightarrow> (error + Deployment) \<times> deployments_client" where
  "Get cl name = (store cl name, cl\<lparr>gets := gets cl @ [name]\<rparr>)"

subsection \<open>syncStatus\<close>

text \<open>The local variables of \<^verbatim>\<open>syncStatus\<close> that live across loop iterations.\<close>

record counters =
  version_ready :: nat
  existingDeploymentsAndReplicas :: nat
  deployment_complete :: nat
  statusMsg :: string

text \<open>
  The \<^verbatim>\<open>for _, dep := range deployments\<close> loop. \<open>Inl\<close> is a \<^verbatim>\<open>return\<close>
  from inside the loop, with the returned pair; \<open>Inr\<close> is the loop running to its
  end, with the counters. The operator config and the client are passed through.
\<close>

fun syncStatus_loop ::
  "deployments_client \<Rightarrow> ServiceCA \<Rightarrow> counters \<Rightarrow> string list \<Rightarrow>
   ((bool \<times> error option) + counters) \<times> ServiceCA \<times> deployments_client" where
  "syncStatus_loop cl operatorConfigCopy vars [] = (Inr vars, operatorConfigCopy, cl)"
| "syncStatus_loop cl operatorConfigCopy vars (dep # deployments) =
     (let reason = ''ManagedDeploymentsNotReady'' in
      case Get cl dep of
        (Inl err, cl') \<Rightarrow>
          if IsNotFound err then
            (let msg = ''Deployment '' @ dep @ '' does not exist'' in
             (Inl (False, None),
              setAvailableFalse (setProgressingTrue operatorConfigCopy reason msg) reason msg, cl'))
          else
            (let msg = ''Error getting deployment '' @ dep in
             (Inl (False, Some err),
              setAvailableFalse (setFailingTrue operatorConfigCopy msg (ErrorString err)) reason msg, cl'))
      | (Inr existing, cl') \<Rightarrow>
          if DeletionTimestamp existing \<noteq> None then
            (let msg = ''Deployment '' @ dep @ '' is being deleted'' in
             (Inl (False, None),
              setAvailableFalse (setProgressingTrue operatorConfigCopy reason msg) reason msg, cl'))
          else if \<not> isDeploymentStatusAvailable existing then
            (let msg = ''Deployment '' @ dep @ '' does not have available replicas'' in
             (Inl (False, None),
              setAvailableFalse (setProgressingTrue operatorConfigCopy reason msg) reason msg, cl'))
          else
            (let vars1 = vars\<lparr>existingDeploymentsAndReplicas := existingDeploymentsAndReplicas vars + 1\<rparr>;
                 vars2 = (if isDeploymentStatusComplete existing
                          then vars1\<lparr>deployment_complete := deployment_complete vars1 + 1\<rparr>
                          else vars1\<lparr>statusMsg := ''Deployment '' @ dep @ '' is creating replicas.''\<rparr>);
                 vars3 = (if isDeploymentStatusAvailableAndUpdated existing
                          then vars2\<lparr>version_ready := version_ready vars2 + 1\<rparr>
                          else vars2\<lparr>statusMsg := ''Deployment '' @ dep @ '' is updating''\<rparr>)
             in syncStatus_loop cl' operatorConfigCopy vars3 deployments))"

definition init_counters :: counters where
  "init_counters = \<lparr>version_ready = 0, existingDeploymentsAndReplicas = 0,
                    deployment_complete = 0, statusMsg = ''''\<rparr>"

definition syncStatus ::
  "deployments_client \<Rightarrow> ServiceCA \<Rightarrow> string list \<Rightarrow>
   (bool \<times> error option) \<times> ServiceCA \<times> deployments_client" where
  "syncStatus cl operatorConfigCopy deployments =
     (case syncStatus_loop cl operatorConfigCopy init_counters deployments of
        (Inl ret, cfg, cl') \<Rightarrow> (ret, cfg, cl')
      | (Inr vars, cfg, cl') \<Rightarrow>
          if deployment_complete vars = length deployments then
            (let reason = ''ManagedDeploymentsCompleteAndUpdated'' in
             ((True, None),
              setProgressingFalse (setAvailableTrue cfg reason) reason
                ''All service-ca-operator deployments updated'', cl'))
          else if version_ready vars = length deployments then
            (let reason = ''ManagedDeploymentsAvailableAndUpdated'' in
             ((True, None),
              setProgressingTrue (setAvailableTrue cfg reason) reason (statusMsg vars), cl'))
          else if existingDeploymentsAndReplicas vars = length deployments then
            (let reason = ''ManagedDeploymentsAvailable'' in
             ((False, None),
              setProgressingTrue (setAvailableTrue cfg reason) reason (statusMsg vars), cl'))
          else ((False, None), cfg, cl'))"

subsection \<open>Classification of what the store answers\<close>

text \<open>
  The predicates of this subsection are not functions of the source: they name the
  conditions of the loop body, for use in the statements below.

  \<open>disqualifies\<close> collects the four checks of the loop body that return early: a fetch
  error (NotFound or any other), a deletion timestamp, no available replica.
\<close>

definition disqualifies :: "error + Deployment \<Rightarrow> bool" where
  "disqualifies r =
     (case r of
        Inl err \<Rightarrow> True
      | Inr existing \<Rightarrow>
          DeletionTimestamp existing \<noteq> None \<or> \<not> isDeploymentStatusAvailable existing)"

text \<open>
  A deployment is classified (counted) by the loop only after it passed these checks:
  \<open>classified_complete\<close> is what increments \<open>deployment_complete\<close>,
  \<open>classified_versionReady\<close> what increments \<open>version_ready\<close>; every deployment
  that is not disqualified increments \<open>existingDeploymentsAndReplicas\<close>.
\<close>

definition classified_complete :: "error + Deployment \<Rightarrow> bool" where
  "classified_complete r =
     (case r of
        Inl err \<Rightarrow> False
      | Inr existing \<Rightarrow> \<not> disqualifies r \<and> isDeploymentStatusComplete existing)"

definition classified_versionReady :: "error + Deployment \<Rightarrow> bool" where
  "classified_versionReady r =
     (case r of
        Inl err \<Rightarrow> False
      | Inr existing \<Rightarrow> \<not> disqualifies r \<and> isDeploymentStatusAvailableAndUpdated existing)"

text \<open>The names one call fetched: what it added to the client's log.\<close>

definition fetched :: "deployments_client \<Rightarrow> deployments_client \<Rightarrow> string list" where
  "fetched before after = drop (length (gets before)) (gets after)"

text \<open>The conditions of an operator config, read by type.\<close>

definition condition :: "ServiceCA \<Rightarrow> string \<Rightarrow> OperatorCondition option" where
  "condition operatorConfig conditionType =
     FindOperatorCondition (Conditions (ServiceCA_Status operatorConfig)) conditionType"

section \<open>The annotation injector (package controller)\<close>

record ConfigMap =
  Namespace :: string
  Name :: string
  Annotations :: "(string, string) fmap"
  Data :: "(string, string) fmap"
  BinaryData :: "(string, 8 word list) fmap"

text \<open>
  \<^verbatim>\<open>Sync\<close> takes a \<^verbatim>\<open>v1.Object\<close> and asserts that it is a ConfigMap; the
  assertion panics on anything else.
\<close>

datatype Object = ConfigMapObject ConfigMap | OtherObject

datatype panic = TypeAssertionPanic

text \<open>
  The two members of package \<^verbatim>\<open>api\<close> the controller uses. The package is not part of
  the sources at hand, so both are parameters of the model.
\<close>

record api =
  HasInjectCABundleAnnotation :: "ConfigMap \<Rightarrow> bool"
  InjectionDataKey :: string

text \<open>
  The ConfigMaps client: \<open>update_result\<close> is the error (or nil) the store answers an
  \<^verbatim>\<open>Update\<close> in a namespace with, \<open>updates\<close> the calls made, in order, each with the
  object submitted.
\<close>

record configmaps_client =
  update_result :: "string \<Rightarrow> ConfigMap \<Rightarrow> error option"
  updates :: "(string \<times> ConfigMap) list"

definition Update :: "configmaps_client \<Rightarrow> string \<Rightarrow> ConfigMap \<Rightarrow> error option \<times> configmaps_client" where
  "Update cl namespace configMap =
     (update_result cl namespace configMap, cl\<lparr>updates := updates cl @ [(namespace, configMap)]\<rparr>)"

record configMapCABundleInjectionController =
  configMapClient :: configmaps_client
  ca :: string

text \<open>
  \<^verbatim>\<open>current.DeepCopy()\<close> is the identity on values: the model has no aliasing, and
  \<open>current\<close> is never changed.
\<close>

definition ensureConfigMapCABundleInjection ::
  "api \<Rightarrow> configMapCABundleInjectionController \<Rightarrow> ConfigMap \<Rightarrow>
   error option \<times> configMapCABundleInjectionController" where
  "ensureConfigMapCABundleInjection api ic current =
     (let configMapCopy = current in
      if (case fmlookup (Data configMapCopy) (InjectionDataKey api) of
            Some data \<Rightarrow> data = ca ic \<and> fcard (fmdom (Data configMapCopy)) = 1
          | None \<Rightarrow> False)
      then (None, ic)
      else
        (let configMapCopy' = configMapCopy\<lparr>Data := fmap_of_list [(InjectionDataKey api, ca ic)]\<rparr>;
             (err, cl') = Update (configMapClient ic) (Namespace current) configMapCopy'
         in (err, ic\<lparr>configMapClient := cl'\<rparr>)))"

definition Sync ::
  "api \<Rightarrow> configMapCABundleInjectionController \<Rightarrow> Object \<Rightarrow>
   panic + (error option \<times> configMapCABundleInjectionController)" where
  "Sync api ic obj =
     (case obj of
        OtherObject \<Rightarrow> Inl TypeAssertionPanic
      | ConfigMapObject sharedConfigMap \<Rightarrow>
          if \<not> HasInjectCABundleAnnotation api sharedConfigMap then Inr (None, ic)
          else Inr (ensureConfigMapCABundleInjection api ic sharedConfigMap))"

text \<open>
  Two notions for the statements below, not functions of the source. First the Update
  calls one call of the controller issued: what it added to the client's log.
\<close>

definition issued ::
  "configMapCABundleInjectionController \<Rightarrow> configMapCABundleInjectionController \<Rightarrow>
   (string \<times> ConfigMap) list" where
  "issued before after =
     drop (length (updates (configMapClient before))) (updates (configMapClient after))"

text \<open>
  Calling \<^verbatim>\<open>Sync\<close> twice in a row on the same object, the controller (with its client)
  going from the first call to the second.
\<close>

definition SyncTwice ::
  "api \<Rightarrow> configMapCABundleInjectionController \<Rightarrow> Object \<Rightarrow>
   panic + (error option \<times> error option \<times> configMapCABundleInjectionController)" where
  "SyncTwice api ic obj =
     (case Sync api ic obj of
        Inl p \<Rightarrow> Inl p
      | Inr (err1, ic1) \<Rightarrow>
          (case Sync api ic1 obj of
             Inl p \<Rightarrow> Inl p
           | Inr (err2, ic2) \<Rightarrow> Inr (err1, err2, ic2)))"

section \<open>Concrete inputs\<close>

text \<open>Deployments in the states of the spec's scenarios.\<close>

definition deployment_2of2 :: Deployment where
  "deployment_2of2 =
     \<lparr>DeletionTimestamp = None, Generation = 3, Spec_Replicas = Some 2,
      Status_ObservedGeneration = 3, Status_Replicas = 2, Status_UpdatedReplicas = 2,
      Status_AvailableReplicas = 2\<rparr>"

definition deployment_stale :: Deployment where
  "deployment_stale =
     \<lparr>DeletionTimestamp = None, Generation = 3, Spec_Replicas = None,
      Status_ObservedGeneration = 3, Status_Replicas = 2, Status_UpdatedReplicas = 1,
      Status_AvailableReplicas = 1\<rparr>"

definition deployment_scaling :: Deployment where
  "deployment_scaling =
     \<lparr>DeletionTimestamp = None, Generation = 3, Spec_Replicas = Some 3,
      Status_ObservedGeneration = 3, Status_Replicas = 1, Status_UpdatedReplicas = 1,
      Status_AvailableReplicas = 1\<rparr>"

definition deployment_deleted_unavailable :: Deployment where
  "deployment_deleted_unavailable =
     \<lparr>DeletionTimestamp = Some 1572600000, Generation = 3, Spec_Replicas = Some 1,
      Status_ObservedGeneration = 3, Status_Replicas = 1, Status_UpdatedReplicas = 1,
      Status_AvailableReplicas = 0\<rparr>"

definition deployment_unavailable :: Deployment where
  "deployment_unavailable =
     \<lparr>DeletionTimestamp = None, Generation = 3, Spec_Replicas = Some 1,
      Status_ObservedGeneration = 3, Status_Replicas = 1, Status_UpdatedReplicas = 1,
      Status_AvailableReplicas = 0\<rparr>"

definition example_store :: "string \<Rightarrow> error + Deployment" where
  "example_store name =
     (if name = ''apiservice-cabundle-injector'' then Inr deployment_2of2
      else if name = ''configmap-cabundle-injector'' then Inr deployment_stale
      else if name = ''service-serving-cert-signer'' then Inr deployment_scaling
      else if name = ''deleted'' then Inr deployment_deleted_unavailable
      else if name = ''unavailable'' then Inr deployment_unavailable
      else if name = ''unreachable'' then Inl (Error False ''connection refused'')
      else Inl (Error True (''deployments.apps '' @ name @ '' not found'')))"

definition example_client :: deployments_client where
  "example_client = \<lparr>store = example_store, gets = []\<rparr>"

text \<open>The same store, except that one deployment cannot be fetched.\<close>

definition example_client' :: deployments_client where
  "example_client' =
     \<lparr>store = (\<lambda>name. if name = ''service-serving-cert-signer'' then Inl (Error False ''timeout'')
                       else example_store name),
      gets = []\<rparr>"

definition example_config :: ServiceCA where
  "example_config =
     \<lparr>ServiceCA_Name = ''cluster'',
      ServiceCA_Status =
        \<lparr>ObservedGeneration = 1,
         Conditions =
           [\<lparr>Type = ''Failing'', Status = ConditionTrue, Reason = ''OperatorSyncLoopError'',
             Message = ''earlier failure''\<rparr>,
            \<lparr>Type = ''Upgradeable'', Status = ConditionTrue, Reason = ''AsExpected'', Message = []\<rparr>],
         Version = ''4.1.0'', ReadyReplicas = 0\<rparr>\<rparr>"

text \<open>
  An instance of package \<^verbatim>\<open>api\<close> for the examples: the trigger annotation named in the
  controller's comment, set to true, and a data key.
\<close>

definition example_api :: api where
  "example_api =
     \<lparr>HasInjectCABundleAnnotation =
        (\<lambda>cm. fmlookup (Annotations cm) ''service.alpha.openshift.io/inject-cabundle'' = Some ''true''),
      InjectionDataKey = ''service-ca.crt''\<rparr>"

definition example_controller :: configMapCABundleInjectionController where
  "example_controller =
     \<lparr>configMapClient = \<lparr>update_result = (\<lambda>namespace configMap. None), updates = []\<rparr>,
      ca = ''PEM''\<rparr>"

definition annotated_configmap :: ConfigMap where
  "annotated_configmap =
     \<lparr>Namespace = ''ns'', Name = ''trusted'',
      Annotations = fmap_of_list [(''service.alpha.openshift.io/inject-cabundle'', ''true'')],
      Data = fmap_of_list [(''foo'', ''bar''), (''service-ca.crt'', ''OLD'')],
      BinaryData = fmempty\<rparr>"

definition plain_configmap :: ConfigMap where
  "plain_configmap =
     \<lparr>Namespace = ''ns'', Name = ''plain'', Annotations = fmempty,
      Data = fmap_of_list [(''foo'', ''bar'')], BinaryData = fmempty\<rparr>"

definition injected_configmap :: ConfigMap where
  "injected_configmap = annotated_configmap\<lparr>Data := fmap_of_list [(''service-ca.crt'', ''PEM'')]\<rparr>"

section \<open>Properties of the condition helpers\<close>

lemma Find_Set_same:
  "FindOperatorCondition (SetOperatorCondition cs c) (Type c) = Some c"
  by (induction cs) (simp_all add: FindOperatorCondition_def)

lemma Find_Set_other:
  "t \<noteq> Type c \<Longrightarrow> FindOperatorCondition (SetOperatorCondition cs c) t = FindOperatorCondition cs t"
  by (induction cs) (auto simp add: FindOperatorCondition_def)

lemma filter_Set_other:
  "P (Type c) \<Longrightarrow> filter (\<lambda>x. \<not> P (Type x)) (SetOperatorCondition cs c) = filter (\<lambda>x. \<not> P (Type x)) cs"
  by (induction cs) auto

lemma condition_set_same:
  "condition (setCondition cfg c) (Type c) = Some c"
  by (simp add: condition_def setCondition_def Find_Set_same)

lemma condition_set_other:
  "t \<noteq> Type c \<Longrightarrow> condition (setCondition cfg c) t = condition cfg t"
  by (simp add: condition_def setCondition_def Find_Set_other)

lemmas setters =
  setFailingTrue_def setProgressingTrue_def setProgressingFalse_def
  setAvailableTrue_def setAvailableFalse_def

lemmas condition_types =
  OperatorStatusTypeAvailable_def OperatorStatusTypeProgressing_def OperatorStatusTypeFailing_def

lemma condition_progressing_stop:
  "condition (setAvailableFalse (setProgressingTrue cfg reason msg) reason' msg') OperatorStatusTypeProgressing =
     Some \<lparr>Type = OperatorStatusTypeProgressing, Status = ConditionTrue, Reason = reason, Message = msg\<rparr>"
proof -
  let ?p = "\<lparr>Type = OperatorStatusTypeProgressing, Status = ConditionTrue, Reason = reason, Message = msg\<rparr>"
  let ?a = "\<lparr>Type = OperatorStatusTypeAvailable, Status = ConditionFalse, Reason = reason', Message = msg'\<rparr>"
  have "condition (setCondition (setCondition cfg ?p) ?a) (Type ?p) = condition (setCondition cfg ?p) (Type ?p)"
    by (rule condition_set_other) (simp add: condition_types)
  then show ?thesis
    using condition_set_same [of cfg ?p] by (simp add: setters)
qed

lemma condition_failing_stop:
  "condition (setAvailableFalse (setFailingTrue cfg reason msg) reason' msg') OperatorStatusTypeFailing =
     Some \<lparr>Type = OperatorStatusTypeFailing, Status = ConditionTrue, Reason = reason, Message = msg\<rparr>"
proof -
  let ?p = "\<lparr>Type = OperatorStatusTypeFailing, Status = ConditionTrue, Reason = reason, Message = msg\<rparr>"
  let ?a = "\<lparr>Type = OperatorStatusTypeAvailable, Status = ConditionFalse, Reason = reason', Message = msg'\<rparr>"
  have "condition (setCondition (setCondition cfg ?p) ?a) (Type ?p) = condition (setCondition cfg ?p) (Type ?p)"
    by (rule condition_set_other) (simp add: condition_types)
  then show ?thesis
    using condition_set_same [of cfg ?p] by (simp add: setters)
qed

lemma condition_available_stop:
  "condition (setAvailableFalse cfg reason msg) OperatorStatusTypeAvailable =
     Some \<lparr>Type = OperatorStatusTypeAvailable, Status = ConditionFalse, Reason = reason, Message = msg\<rparr>"
  using condition_set_same [of cfg "\<lparr>Type = OperatorStatusTypeAvailable, Status = ConditionFalse,
    Reason = reason, Message = msg\<rparr>"]
  by (simp add: setters)

lemma setCondition_fields:
  "ServiceCA_Name (setCondition cfg c) = ServiceCA_Name cfg"
  "ObservedGeneration (ServiceCA_Status (setCondition cfg c)) = ObservedGeneration (ServiceCA_Status cfg)"
  "Version (ServiceCA_Status (setCondition cfg c)) = Version (ServiceCA_Status cfg)"
  "ReadyReplicas (ServiceCA_Status (setCondition cfg c)) = ReadyReplicas (ServiceCA_Status cfg)"
  by (simp_all add: setCondition_def)

lemma setCondition_filter:
  "P (Type c) \<Longrightarrow>
   filter (\<lambda>x. \<not> P (Type x)) (Conditions (ServiceCA_Status (setCondition cfg c))) =
   filter (\<lambda>x. \<not> P (Type x)) (Conditions (ServiceCA_Status cfg))"
  by (simp add: setCondition_def filter_Set_other)

lemma set_SetOperatorCondition:
  "set (SetOperatorCondition cs c) \<subseteq> insert c (set cs)"
  by (induction cs) auto

lemma setCondition_set:
  "set (Conditions (ServiceCA_Status (setCondition cfg c))) \<subseteq>
   insert c (set (Conditions (ServiceCA_Status cfg)))"
  by (simp add: setCondition_def set_SetOperatorCondition)

section \<open>The loop of syncStatus\<close>

lemma loop_append:
  "syncStatus_loop cl cfg vars (xs @ ys) =
     (case syncStatus_loop cl cfg vars xs of
        (Inl r, cfg', cl') \<Rightarrow> (Inl r, cfg', cl')
      | (Inr vars', cfg', cl') \<Rightarrow> syncStatus_loop cl' cfg' vars' ys)"
  by (induction xs arbitrary: cl vars) (simp_all add: Get_def Let_def split: sum.splits)

lemma loop_pass:
  "\<forall>d\<in>set xs. \<not> disqualifies (store cl d) \<Longrightarrow>
   \<exists>vars'. syncStatus_loop cl cfg vars xs = (Inr vars', cfg, cl\<lparr>gets := gets cl @ xs\<rparr>) \<and>
     existingDeploymentsAndReplicas vars' = existingDeploymentsAndReplicas vars + length xs \<and>
     deployment_complete vars' = deployment_complete vars + length (filter (\<lambda>d. classified_complete (store cl d)) xs) \<and>
     version_ready vars' = version_ready vars + length (filter (\<lambda>d. classified_versionReady (store cl d)) xs)"
proof (induction xs arbitrary: cl vars)
  case Nil
  then show ?case by simp
next
  case (Cons d xs)
  from Cons.prems obtain e where e: "store cl d = Inr e" "DeletionTimestamp e = None" "isDeploymentStatusAvailable e"
    by (auto simp add: disqualifies_def split: sum.splits)
  let ?cl = "cl\<lparr>gets := gets cl @ [d]\<rparr>"
  have st: "\<forall>x\<in>set xs. \<not> disqualifies (store ?cl x)" using Cons.prems by simp
  define vars1 where "vars1 = vars\<lparr>existingDeploymentsAndReplicas := existingDeploymentsAndReplicas vars + 1\<rparr>"
  define vars2 where "vars2 = (if isDeploymentStatusComplete e
                          then vars1\<lparr>deployment_complete := deployment_complete vars1 + 1\<rparr>
                          else vars1\<lparr>statusMsg := ''Deployment '' @ d @ '' is creating replicas.''\<rparr>)"
  define vars3 where "vars3 = (if isDeploymentStatusAvailableAndUpdated e
                          then vars2\<lparr>version_ready := version_ready vars2 + 1\<rparr>
                          else vars2\<lparr>statusMsg := ''Deployment '' @ d @ '' is updating''\<rparr>)"
  have step: "syncStatus_loop cl cfg vars (d # xs) = syncStatus_loop ?cl cfg vars3 xs"
    using e by (simp add: Get_def Let_def vars1_def vars2_def vars3_def)
  have c3: "existingDeploymentsAndReplicas vars3 = existingDeploymentsAndReplicas vars + 1"
    "deployment_complete vars3 = deployment_complete vars + (if classified_complete (store cl d) then 1 else 0)"
    "version_ready vars3 = version_ready vars + (if classified_versionReady (store cl d) then 1 else 0)"
    using e by (simp_all add: vars1_def vars2_def vars3_def classified_complete_def
        classified_versionReady_def disqualifies_def)
  from Cons.IH [OF st, of vars3] obtain vars' where
    v: "syncStatus_loop ?cl cfg vars3 xs = (Inr vars', cfg, ?cl\<lparr>gets := gets ?cl @ xs\<rparr>)"
      "existingDeploymentsAndReplicas vars' = existingDeploymentsAndReplicas vars3 + length xs"
      "deployment_complete vars' = deployment_complete vars3 + length (filter (\<lambda>d. classified_complete (store ?cl d)) xs)"
      "version_ready vars' = version_ready vars3 + length (filter (\<lambda>d. classified_versionReady (store ?cl d)) xs)"
    by blast
  show ?case
    using step v c3 by simp
qed


lemma loop_head_disq:
  "disqualifies (store cl d) \<Longrightarrow>
   syncStatus_loop cl cfg vars (d # suf) =
     (let reason = ''ManagedDeploymentsNotReady'' in
      case store cl d of
        Inl err \<Rightarrow>
          if IsNotFound err then
            (Inl (False, None),
             setAvailableFalse (setProgressingTrue cfg reason (''Deployment '' @ d @ '' does not exist''))
               reason (''Deployment '' @ d @ '' does not exist''),
             cl\<lparr>gets := gets cl @ [d]\<rparr>)
          else
            (Inl (False, Some err),
             setAvailableFalse (setFailingTrue cfg (''Error getting deployment '' @ d) (ErrorString err))
               reason (''Error getting deployment '' @ d),
             cl\<lparr>gets := gets cl @ [d]\<rparr>)
      | Inr existing \<Rightarrow>
          if DeletionTimestamp existing \<noteq> None then
            (Inl (False, None),
             setAvailableFalse (setProgressingTrue cfg reason (''Deployment '' @ d @ '' is being deleted''))
               reason (''Deployment '' @ d @ '' is being deleted''),
             cl\<lparr>gets := gets cl @ [d]\<rparr>)
          else
            (Inl (False, None),
             setAvailableFalse (setProgressingTrue cfg reason (''Deployment '' @ d @ '' does not have available replicas''))
               reason (''Deployment '' @ d @ '' does not have available replicas''),
             cl\<lparr>gets := gets cl @ [d]\<rparr>))"
  by (cases "store cl d") (auto simp add: Get_def Let_def disqualifies_def)

lemma loop_first_disq:
  assumes "\<forall>p\<in>set pre. \<not> disqualifies (store cl p)" and "disqualifies (store cl d)"
  shows "syncStatus_loop cl cfg vars (pre @ d # suf) =
         syncStatus_loop (cl\<lparr>gets := gets cl @ pre\<rparr>) cfg vars0 [d]"
proof -
  from loop_pass [OF assms(1), of cfg vars] obtain vars' where
    "syncStatus_loop cl cfg vars pre = (Inr vars', cfg, cl\<lparr>gets := gets cl @ pre\<rparr>)" by blast
  then have "syncStatus_loop cl cfg vars (pre @ d # suf) =
     syncStatus_loop (cl\<lparr>gets := gets cl @ pre\<rparr>) cfg vars' (d # suf)"
    by (simp add: loop_append)
  also have "\<dots> = syncStatus_loop (cl\<lparr>gets := gets cl @ pre\<rparr>) cfg vars0 [d]"
    using assms(2) by (simp add: loop_head_disq del: syncStatus_loop.simps)
  finally show ?thesis .
qed

lemma split_first_disq:
  assumes "\<exists>d\<in>set xs. disqualifies (store cl d)"
  obtains pre d suf where "xs = pre @ d # suf" "\<forall>p\<in>set pre. \<not> disqualifies (store cl p)"
    "disqualifies (store cl d)"
  using assms split_list_first_prop [of xs "\<lambda>d. disqualifies (store cl d)"] by blast

lemma complete_imp_versionReady:
  "classified_complete r \<Longrightarrow> classified_versionReady r"
  by (auto simp add: classified_complete_def classified_versionReady_def disqualifies_def
      isDeploymentStatusComplete_def isDeploymentStatusAvailableAndUpdated_def
      isDeploymentStatusAvailable_def Let_def split: sum.splits)

lemma versionReady_imp_existing:
  "classified_versionReady r \<Longrightarrow> \<not> disqualifies r"
  by (auto simp add: classified_versionReady_def split: sum.splits)

lemma length_filter_all:
  "length (filter P xs) = length xs \<longleftrightarrow> (\<forall>x\<in>set xs. P x)"
proof (induction xs)
  case Nil
  then show ?case by simp
next
  case (Cons x xs)
  have "length (filter P xs) \<le> length xs" by simp
  then have "length (filter P xs) \<noteq> Suc (length xs)" by arith
  with Cons show ?case by auto
qed

lemma loop_Inr_pass:
  assumes "syncStatus_loop cl cfg vars xs = (Inr vars', cfg', cl')"
  shows "\<forall>d\<in>set xs. \<not> disqualifies (store cl d)"
proof (rule ccontr)
  assume "\<not> (\<forall>d\<in>set xs. \<not> disqualifies (store cl d))"
  then have "\<exists>d\<in>set xs. disqualifies (store cl d)" by blast
  then obtain pre d suf where s: "xs = pre @ d # suf"
    "\<forall>p\<in>set pre. \<not> disqualifies (store cl p)" "disqualifies (store cl d)"
    by (rule split_first_disq)
  have "disqualifies (store (cl\<lparr>gets := gets cl @ pre\<rparr>) d)" using s(3) by simp
  from loop_head_disq [OF this, of cfg vars "[]"] loop_first_disq [OF s(2,3), of cfg vars suf vars]
  have "\<exists>r c k. syncStatus_loop cl cfg vars xs = (Inl r, c, k)"
    unfolding s(1) by (auto simp add: Let_def split: sum.splits if_splits)
  with assms show False by simp
qed

lemma syncStatus_stop:
  assumes "\<forall>p\<in>set pre. \<not> disqualifies (store cl p)" and "disqualifies (store cl d)"
  shows "syncStatus cl cfg (pre @ d # suf) = syncStatus (cl\<lparr>gets := gets cl @ pre\<rparr>) cfg [d]"
proof -
  let ?cl = "cl\<lparr>gets := gets cl @ pre\<rparr>"
  have d: "disqualifies (store ?cl d)" using assms(2) by simp
  have l: "syncStatus_loop cl cfg init_counters (pre @ d # suf) = syncStatus_loop ?cl cfg init_counters [d]"
    by (rule loop_first_disq [OF assms])
  from loop_head_disq [OF d, of cfg init_counters "[]"]
  obtain r c k where "syncStatus_loop ?cl cfg init_counters [d] = (Inl r, c, k)"
    by (auto simp add: Let_def split: sum.splits if_splits)
  with l show ?thesis by (simp add: syncStatus_def)
qed

lemma syncStatus_single:
  assumes "disqualifies (store cl d)"
  shows "syncStatus cl cfg [d] =
     (case store cl d of
        Inl err \<Rightarrow>
          if IsNotFound err then
            ((False, None),
             setAvailableFalse (setProgressingTrue cfg ''ManagedDeploymentsNotReady''
                 (''Deployment '' @ d @ '' does not exist''))
               ''ManagedDeploymentsNotReady'' (''Deployment '' @ d @ '' does not exist''),
             cl\<lparr>gets := gets cl @ [d]\<rparr>)
          else
            ((False, Some err),
             setAvailableFalse (setFailingTrue cfg (''Error getting deployment '' @ d) (ErrorString err))
               ''ManagedDeploymentsNotReady'' (''Error getting deployment '' @ d),
             cl\<lparr>gets := gets cl @ [d]\<rparr>)
      | Inr existing \<Rightarrow>
          if DeletionTimestamp existing \<noteq> None then
            ((False, None),
             setAvailableFalse (setProgressingTrue cfg ''ManagedDeploymentsNotReady''
                 (''Deployment '' @ d @ '' is being deleted''))
               ''ManagedDeploymentsNotReady'' (''Deployment '' @ d @ '' is being deleted''),
             cl\<lparr>gets := gets cl @ [d]\<rparr>)
          else
            ((False, None),
             setAvailableFalse (setProgressingTrue cfg ''ManagedDeploymentsNotReady''
                 (''Deployment '' @ d @ '' does not have available replicas''))
               ''ManagedDeploymentsNotReady'' (''Deployment '' @ d @ '' does not have available replicas''),
             cl\<lparr>gets := gets cl @ [d]\<rparr>))"
  using loop_head_disq [OF assms, of cfg init_counters "[]"]
  by (cases "store cl d") (simp_all add: syncStatus_def Let_def del: syncStatus_loop.simps)

lemma syncStatus_pass:
  assumes "\<forall>d\<in>set deps. \<not> disqualifies (store cl d)"
  shows "\<exists>vars. syncStatus_loop cl cfg init_counters deps = (Inr vars, cfg, cl\<lparr>gets := gets cl @ deps\<rparr>) \<and>
     existingDeploymentsAndReplicas vars = length deps \<and>
     (deployment_complete vars = length deps \<longleftrightarrow> (\<forall>d\<in>set deps. classified_complete (store cl d))) \<and>
     (version_ready vars = length deps \<longleftrightarrow> (\<forall>d\<in>set deps. classified_versionReady (store cl d)))"
  using loop_pass [OF assms, of cfg init_counters]
  by (auto simp add: init_counters_def length_filter_all)

lemma syncStatus_run:
  obtains (stop) pre d suf where
      "deps = pre @ d # suf" "\<forall>p\<in>set pre. \<not> disqualifies (store cl p)"
      "disqualifies (store cl d)"
      "syncStatus cl cfg deps = syncStatus (cl\<lparr>gets := gets cl @ pre\<rparr>) cfg [d]"
      "fetched cl (snd (snd (syncStatus cl cfg deps))) = pre @ [d]"
  | (run) vars where
      "\<forall>d\<in>set deps. \<not> disqualifies (store cl d)"
      "syncStatus_loop cl cfg init_counters deps = (Inr vars, cfg, cl\<lparr>gets := gets cl @ deps\<rparr>)"
      "existingDeploymentsAndReplicas vars = length deps"
      "deployment_complete vars = length deps \<longleftrightarrow> (\<forall>d\<in>set deps. classified_complete (store cl d))"
      "version_ready vars = length deps \<longleftrightarrow> (\<forall>d\<in>set deps. classified_versionReady (store cl d))"
      "snd (fst (syncStatus cl cfg deps)) = None"
      "fetched cl (snd (snd (syncStatus cl cfg deps))) = deps"
proof (cases "\<exists>d\<in>set deps. disqualifies (store cl d)")
  case True
  then obtain pre d suf where s: "deps = pre @ d # suf"
    "\<forall>p\<in>set pre. \<not> disqualifies (store cl p)" "disqualifies (store cl d)"
    by (rule split_first_disq)
  let ?cl = "cl\<lparr>gets := gets cl @ pre\<rparr>"
  have eq: "syncStatus cl cfg deps = syncStatus ?cl cfg [d]"
    unfolding s(1) by (rule syncStatus_stop [OF s(2,3)])
  have d: "disqualifies (store ?cl d)" using s(3) by simp
  have "snd (snd (syncStatus ?cl cfg [d])) = ?cl\<lparr>gets := gets ?cl @ [d]\<rparr>"
    by (simp add: syncStatus_single [OF d] split: sum.splits)
  then have "fetched cl (snd (snd (syncStatus cl cfg deps))) = pre @ [d]"
    by (simp add: eq fetched_def)
  with s eq show ?thesis by (rule stop)
next
  case False
  then have pass: "\<forall>d\<in>set deps. \<not> disqualifies (store cl d)" by blast
  from syncStatus_pass [OF pass, of cfg] obtain vars where v:
    "syncStatus_loop cl cfg init_counters deps = (Inr vars, cfg, cl\<lparr>gets := gets cl @ deps\<rparr>)"
    "existingDeploymentsAndReplicas vars = length deps"
    "deployment_complete vars = length deps \<longleftrightarrow> (\<forall>d\<in>set deps. classified_complete (store cl d))"
    "version_ready vars = length deps \<longleftrightarrow> (\<forall>d\<in>set deps. classified_versionReady (store cl d))"
    by blast
  have "snd (fst (syncStatus cl cfg deps)) = None"
    "fetched cl (snd (snd (syncStatus cl cfg deps))) = deps"
    using v(1) by (simp_all add: syncStatus_def fetched_def Let_def)
  with pass v show ?thesis by (rule run)
qed

lemma fetched_disqualified:
  assumes "syncStatus cl cfg deps = (ret, cfg', cl')" and "dep \<in> set (fetched cl cl')"
    and "disqualifies (store cl dep)"
  obtains pre where "syncStatus (cl\<lparr>gets := gets cl @ pre\<rparr>) cfg [dep] = (ret, cfg', cl')"
    and "disqualifies (store (cl\<lparr>gets := gets cl @ pre\<rparr>) dep)"
proof (cases rule: syncStatus_run [of deps cl cfg])
  case (stop pre d suf)
  have "fetched cl cl' = pre @ [d]" using stop(5) assms(1) by simp
  with assms(2,3) stop(2) have "dep = d" by auto
  then have "syncStatus (cl\<lparr>gets := gets cl @ pre\<rparr>) cfg [dep] = (ret, cfg', cl')"
    using stop(4) assms(1) by simp
  moreover have "disqualifies (store (cl\<lparr>gets := gets cl @ pre\<rparr>) dep)"
    using assms(3) by simp
  ultimately show ?thesis by (rule that)
next
  case (run vars)
  have "fetched cl cl' = deps" using run(7) assms(1) by simp
  with assms(2,3) run(1) show ?thesis by auto
qed

text \<open>Every way syncStatus leaves the operator config, with the error it returns.\<close>

lemma syncStatus_writes:
  assumes "syncStatus cl cfg deps = ((ready, err), cfg', cl')"
  obtains (ok) a p where "err = None"
      "Type a = OperatorStatusTypeAvailable" "Type p = OperatorStatusTypeProgressing"
      "cfg' = setCondition (setCondition cfg a) p \<or> cfg' = setCondition (setCondition cfg p) a"
  | (failed) f a where "err \<noteq> None"
      "Type f = OperatorStatusTypeFailing" "Status f = ConditionTrue"
      "Type a = OperatorStatusTypeAvailable" "cfg' = setCondition (setCondition cfg f) a"
proof (cases rule: syncStatus_run [of deps cl cfg])
  case (stop pre d suf)
  let ?cl = "cl\<lparr>gets := gets cl @ pre\<rparr>"
  have d: "disqualifies (store ?cl d)" using stop(3) by simp
  have run: "syncStatus ?cl cfg [d] = ((ready, err), cfg', cl')" using stop(4) assms by simp
  show ?thesis
  proof (cases "err")
    case None
    with run syncStatus_single [OF d, of cfg]
    obtain msg where "cfg' = setAvailableFalse (setProgressingTrue cfg ''ManagedDeploymentsNotReady'' msg)
        ''ManagedDeploymentsNotReady'' msg"
      by (cases "store cl d") (auto split: if_splits)
    then have "cfg' = setCondition (setCondition cfg
         \<lparr>Type = OperatorStatusTypeProgressing, Status = ConditionTrue,
          Reason = ''ManagedDeploymentsNotReady'', Message = msg\<rparr>)
         \<lparr>Type = OperatorStatusTypeAvailable, Status = ConditionFalse,
          Reason = ''ManagedDeploymentsNotReady'', Message = msg\<rparr>"
      by (simp add: setters)
    with None show ?thesis
      by (intro ok [of "\<lparr>Type = OperatorStatusTypeAvailable, Status = ConditionFalse,
          Reason = ''ManagedDeploymentsNotReady'', Message = msg\<rparr>"
          "\<lparr>Type = OperatorStatusTypeProgressing, Status = ConditionTrue,
          Reason = ''ManagedDeploymentsNotReady'', Message = msg\<rparr>"]) simp_all
  next
    case (Some e)
    with run syncStatus_single [OF d, of cfg]
    obtain msg where "cfg' = setAvailableFalse (setFailingTrue cfg msg (ErrorString e))
        ''ManagedDeploymentsNotReady'' msg"
      by (cases "store cl d") (auto split: if_splits)
    then have "cfg' = setCondition (setCondition cfg
         \<lparr>Type = OperatorStatusTypeFailing, Status = ConditionTrue,
          Reason = msg, Message = ErrorString e\<rparr>)
         \<lparr>Type = OperatorStatusTypeAvailable, Status = ConditionFalse,
          Reason = ''ManagedDeploymentsNotReady'', Message = msg\<rparr>"
      by (simp add: setters)
    with Some show ?thesis
      by (intro failed [of "\<lparr>Type = OperatorStatusTypeFailing, Status = ConditionTrue,
          Reason = msg, Message = ErrorString e\<rparr>"
          "\<lparr>Type = OperatorStatusTypeAvailable, Status = ConditionFalse,
          Reason = ''ManagedDeploymentsNotReady'', Message = msg\<rparr>"]) simp_all
  qed
next
  case (run vars)
  have e: "err = None" using run(6) assms by simp
  from run(2,3) assms obtain st reason msg where
    "cfg' = setCondition (setCondition cfg
       \<lparr>Type = OperatorStatusTypeAvailable, Status = ConditionTrue, Reason = reason, Message = ''''\<rparr>)
       \<lparr>Type = OperatorStatusTypeProgressing, Status = st, Reason = reason, Message = msg\<rparr>"
    by (auto simp add: syncStatus_def Let_def setters split: if_splits)
  with e show ?thesis
    by (intro ok [of "\<lparr>Type = OperatorStatusTypeAvailable, Status = ConditionTrue,
          Reason = reason, Message = ''''\<rparr>"
          "\<lparr>Type = OperatorStatusTypeProgressing, Status = st,
          Reason = reason, Message = msg\<rparr>"]) simp_all
qed

section \<open>Evaluating the concrete inputs\<close>

lemmas example_deployments =
  deployment_2of2_def deployment_stale_def deployment_scaling_def
  deployment_deleted_unavailable_def deployment_unavailable_def

lemmas deployment_checks =
  isDeploymentStatusAvailable_def isDeploymentStatusComplete_def
  isDeploymentStatusAvailableAndUpdated_def word_sless_alt word_sle_eq

lemmas classification =
  disqualifies_def classified_complete_def classified_versionReady_def

lemmas example_eval =
  syncStatus_def Get_def Let_def init_counters_def example_client_def example_store_def
  example_deployments deployment_checks fetched_def

section \<open>Claims about syncStatus\<close>

text \<open>
  C8. Tier monotonicity: whenever the loop of syncStatus runs to its end and its
  \<open>deployment_complete\<close> count equals the number of deployments (all deployments are
  classified complete), its \<open>version_ready\<close> and \<open>existingDeploymentsAndReplicas\<close>
  counts equal that number too.
\<close>

theorem tier_monotonicity:
  assumes "syncStatus_loop cl cfg init_counters deployments = (Inr vars, cfg', cl')"
    and "deployment_complete vars = length deployments"
  shows "version_ready vars = length deployments \<and>
         existingDeploymentsAndReplicas vars = length deployments"
proof -
  have pass: "\<forall>d\<in>set deployments. \<not> disqualifies (store cl d)"
    using assms(1) by (rule loop_Inr_pass)
  from syncStatus_pass [OF pass, of cfg] assms(1)
  have ex: "existingDeploymentsAndReplicas vars = length deployments"
    and co: "deployment_complete vars = length deployments \<longleftrightarrow>
             (\<forall>d\<in>set deployments. classified_complete (store cl d))"
    and vr: "version_ready vars = length deployments \<longleftrightarrow>
             (\<forall>d\<in>set deployments. classified_versionReady (store cl d))"
    by auto
  from co assms(2) have "\<forall>d\<in>set deployments. classified_complete (store cl d)" by simp
  then have "\<forall>d\<in>set deployments. classified_versionReady (store cl d)"
    by (blast intro: complete_imp_versionReady)
  with vr ex show ?thesis by simp
qed

lemma example_loop_complete:
  "syncStatus_loop example_client example_config init_counters [''apiservice-cabundle-injector''] =
     (Inr \<lparr>version_ready = 1, existingDeploymentsAndReplicas = 1, deployment_complete = 1,
           statusMsg = ''''\<rparr>,
      example_config, example_client\<lparr>gets := [''apiservice-cabundle-injector'']\<rparr>)"
  by (simp add: example_client_def example_store_def deployment_2of2_def init_counters_def
      Get_def isDeploymentStatusAvailable_def isDeploymentStatusComplete_def
      isDeploymentStatusAvailableAndUpdated_def word_sless_alt word_sle_eq)

theorem tier_monotonicity_witness:
  "syncStatus_loop example_client example_config init_counters [''apiservice-cabundle-injector''] =
     (Inr \<lparr>version_ready = 1, existingDeploymentsAndReplicas = 1, deployment_complete = 1,
           statusMsg = ''''\<rparr>,
      example_config, example_client\<lparr>gets := [''apiservice-cabundle-injector'']\<rparr>) \<and>
   deployment_complete \<lparr>version_ready = 1, existingDeploymentsAndReplicas = 1,
     deployment_complete = 1, statusMsg = ''''\<rparr> = length [''apiservice-cabundle-injector''] \<and>
   version_ready \<lparr>version_ready = 1, existingDeploymentsAndReplicas = 1,
     deployment_complete = 1, statusMsg = ''''\<rparr> = length [''apiservice-cabundle-injector''] \<and>
   existingDeploymentsAndReplicas \<lparr>version_ready = 1, existingDeploymentsAndReplicas = 1,
     deployment_complete = 1, statusMsg = ''''\<rparr> = length [''apiservice-cabundle-injector'']"
  using tier_monotonicity [OF example_loop_complete] example_loop_complete by simp

text \<open>
  C1. Version-reporting gating: the boolean syncStatus returns is true if and only if
  every deployment of the list is classified complete or every deployment is classified
  versionReady; when every deployment passes the disqualification checks (all existing)
  and not all are versionReady, it is false.
\<close>

theorem version_reporting_gating:
  "(fst (fst (syncStatus cl cfg deployments)) \<longleftrightarrow>
      (\<forall>d\<in>set deployments. classified_complete (store cl d)) \<or>
      (\<forall>d\<in>set deployments. classified_versionReady (store cl d))) \<and>
   ((\<forall>d\<in>set deployments. \<not> disqualifies (store cl d)) \<and>
    \<not> (\<forall>d\<in>set deployments. classified_versionReady (store cl d)) \<longrightarrow>
      \<not> fst (fst (syncStatus cl cfg deployments)))"
proof -
  have iff: "fst (fst (syncStatus cl cfg deployments)) \<longleftrightarrow>
      (\<forall>d\<in>set deployments. classified_complete (store cl d)) \<or>
      (\<forall>d\<in>set deployments. classified_versionReady (store cl d))"
  proof (cases rule: syncStatus_run [of deployments cl cfg])
    case (stop pre d suf)
    have d: "disqualifies (store (cl\<lparr>gets := gets cl @ pre\<rparr>) d)" using stop(3) by simp
    have "\<not> fst (fst (syncStatus cl cfg deployments))"
      unfolding stop(4) by (simp add: syncStatus_single [OF d] split: sum.splits)
    moreover have "d \<in> set deployments" using stop(1) by simp
    then have "\<not> (\<forall>d\<in>set deployments. classified_versionReady (store cl d))"
      using stop(3) versionReady_imp_existing by blast
    moreover have "\<not> (\<forall>d\<in>set deployments. classified_complete (store cl d))"
      using \<open>d \<in> set deployments\<close> stop(3) versionReady_imp_existing complete_imp_versionReady
      by blast
    ultimately show ?thesis by simp
  next
    case (run vars)
    have "fst (fst (syncStatus cl cfg deployments)) \<longleftrightarrow>
      deployment_complete vars = length deployments \<or> version_ready vars = length deployments"
      using run(2) by (simp add: syncStatus_def Let_def)
    with run(4,5) show ?thesis by simp
  qed
  moreover have "\<not> (\<forall>d\<in>set deployments. classified_versionReady (store cl d)) \<Longrightarrow>
     \<not> (\<forall>d\<in>set deployments. classified_complete (store cl d))"
    by (blast intro: complete_imp_versionReady)
  ultimately show ?thesis by blast
qed

theorem version_reporting_gating_witness:
  "\<not> disqualifies (store example_client ''apiservice-cabundle-injector'') \<and>
   \<not> disqualifies (store example_client ''configmap-cabundle-injector'') \<and>
   classified_complete (store example_client ''apiservice-cabundle-injector'') \<and>
   \<not> classified_versionReady (store example_client ''configmap-cabundle-injector'') \<and>
   \<not> fst (fst (syncStatus example_client example_config
       [''apiservice-cabundle-injector'', ''configmap-cabundle-injector''])) \<and>
   fst (fst (syncStatus example_client example_config [''apiservice-cabundle-injector'']))"
  using version_reporting_gating [of example_client example_config
      "[''apiservice-cabundle-injector'', ''configmap-cabundle-injector'']"]
    version_reporting_gating [of example_client example_config "[''apiservice-cabundle-injector'']"]
  by (simp add: example_client_def example_store_def example_deployments classification
      deployment_checks)

text \<open>
  C9. With no managed deployment, syncStatus fetches nothing (the client comes back as it
  was, its log included), sets Available=True and Progressing=False, both with reason
  ManagedDeploymentsCompleteAndUpdated, and returns (true, nil).
\<close>

theorem syncStatus_no_deployments:
  "fst (syncStatus cl cfg []) = (True, None) \<and>
   snd (snd (syncStatus cl cfg [])) = cl \<and>
   fetched cl (snd (snd (syncStatus cl cfg []))) = [] \<and>
   condition (fst (snd (syncStatus cl cfg []))) OperatorStatusTypeAvailable =
     Some \<lparr>Type = OperatorStatusTypeAvailable, Status = ConditionTrue,
           Reason = ''ManagedDeploymentsCompleteAndUpdated'', Message = ''''\<rparr> \<and>
   condition (fst (snd (syncStatus cl cfg []))) OperatorStatusTypeProgressing =
     Some \<lparr>Type = OperatorStatusTypeProgressing, Status = ConditionFalse,
           Reason = ''ManagedDeploymentsCompleteAndUpdated'',
           Message = ''All service-ca-operator deployments updated''\<rparr>"
proof -
  let ?r = "''ManagedDeploymentsCompleteAndUpdated''"
  let ?a = "\<lparr>Type = OperatorStatusTypeAvailable, Status = ConditionTrue, Reason = ?r, Message = ''''\<rparr>"
  let ?p = "\<lparr>Type = OperatorStatusTypeProgressing, Status = ConditionFalse, Reason = ?r,
             Message = ''All service-ca-operator deployments updated''\<rparr>"
  have run: "syncStatus cl cfg [] = ((True, None), setCondition (setCondition cfg ?a) ?p, cl)"
    by (simp add: syncStatus_def init_counters_def setters Let_def)
  have "condition (setCondition (setCondition cfg ?a) ?p) (Type ?a) =
        condition (setCondition cfg ?a) (Type ?a)"
    by (rule condition_set_other) (simp add: condition_types)
  then have a: "condition (setCondition (setCondition cfg ?a) ?p) OperatorStatusTypeAvailable = Some ?a"
    using condition_set_same [of cfg ?a] by simp
  have p: "condition (setCondition (setCondition cfg ?a) ?p) OperatorStatusTypeProgressing = Some ?p"
    using condition_set_same [of "setCondition cfg ?a" ?p] by simp
  show ?thesis
    unfolding run using a p by (simp add: fetched_def)
qed

text \<open>
  C5. If a fetch that syncStatus performs fails with an error other than NotFound, then
  syncStatus sets Failing=True with the error's text as message, sets Available=False
  and returns (false, that error); and syncStatus returns a non-nil error only when a
  fetch it performed failed with an error other than NotFound.
\<close>

theorem fetch_error_is_fatal:
  assumes "syncStatus cl cfg deployments = ((ready, err), cfg', cl')"
  shows "(\<forall>dep e. dep \<in> set (fetched cl cl') \<and> store cl dep = Inl e \<and> \<not> IsNotFound e \<longrightarrow>
            \<not> ready \<and> err = Some e \<and>
            condition cfg' OperatorStatusTypeFailing =
              Some \<lparr>Type = OperatorStatusTypeFailing, Status = ConditionTrue,
                    Reason = ''Error getting deployment '' @ dep, Message = ErrorString e\<rparr> \<and>
            condition cfg' OperatorStatusTypeAvailable =
              Some \<lparr>Type = OperatorStatusTypeAvailable, Status = ConditionFalse,
                    Reason = ''ManagedDeploymentsNotReady'',
                    Message = ''Error getting deployment '' @ dep\<rparr>) \<and>
         (err \<noteq> None \<longrightarrow>
            (\<exists>dep e. dep \<in> set (fetched cl cl') \<and> store cl dep = Inl e \<and> \<not> IsNotFound e \<and>
               err = Some e))"
proof (cases rule: syncStatus_run [of deployments cl cfg])
  case (stop pre d suf)
  let ?cl = "cl\<lparr>gets := gets cl @ pre\<rparr>"
  have d: "disqualifies (store ?cl d)" using stop(3) by simp
  have f: "fetched cl cl' = pre @ [d]" using stop(5) assms by simp
  have run: "syncStatus ?cl cfg [d] = ((ready, err), cfg', cl')" using stop(4) assms by simp
  have fwd: "\<not> ready \<and> err = Some e \<and>
            condition cfg' OperatorStatusTypeFailing =
              Some \<lparr>Type = OperatorStatusTypeFailing, Status = ConditionTrue,
                    Reason = ''Error getting deployment '' @ dep, Message = ErrorString e\<rparr> \<and>
            condition cfg' OperatorStatusTypeAvailable =
              Some \<lparr>Type = OperatorStatusTypeAvailable, Status = ConditionFalse,
                    Reason = ''ManagedDeploymentsNotReady'',
                    Message = ''Error getting deployment '' @ dep\<rparr>"
    if h: "dep \<in> set (fetched cl cl')" "store cl dep = Inl e" "\<not> IsNotFound e" for dep e
  proof -
    have "disqualifies (store cl dep)" using h(2) by (simp add: disqualifies_def)
    with h(1) f stop(2) have "dep = d" by auto
    with h(2,3) run syncStatus_single [OF d, of cfg]
    have "ready = False" "err = Some e"
      "cfg' = setAvailableFalse (setFailingTrue cfg (''Error getting deployment '' @ dep) (ErrorString e))
               ''ManagedDeploymentsNotReady'' (''Error getting deployment '' @ dep)"
      by simp_all
    then show ?thesis
      by (simp add: condition_failing_stop condition_available_stop)
  qed
  have bwd: "\<exists>dep e. dep \<in> set (fetched cl cl') \<and> store cl dep = Inl e \<and> \<not> IsNotFound e \<and>
               err = Some e" if "err \<noteq> None"
  proof -
    from that run syncStatus_single [OF d, of cfg]
    obtain e where "store cl d = Inl e" "\<not> IsNotFound e" "err = Some e"
      by (cases "store cl d") (auto split: if_splits)
    with f show ?thesis by auto
  qed
  from fwd bwd show ?thesis by blast
next
  case (run vars)
  have f: "fetched cl cl' = deployments" using run(7) assms by simp
  have e: "err = None" using run(6) assms by simp
  have "\<not> (dep \<in> set (fetched cl cl') \<and> store cl dep = Inl e)" for dep e
    using f run(1) by (auto simp add: disqualifies_def)
  with e show ?thesis by blast
qed

lemma example_run_unreachable:
  "fst (syncStatus example_client example_config
     [''apiservice-cabundle-injector'', ''unreachable'', ''missing'']) =
     (False, Some (Error False ''connection refused''))"
  "fetched example_client (snd (snd (syncStatus example_client example_config
     [''apiservice-cabundle-injector'', ''unreachable'', ''missing'']))) =
     [''apiservice-cabundle-injector'', ''unreachable'']"
  by (simp_all add: example_eval)

theorem fetch_error_is_fatal_witness:
  "''unreachable'' \<in> set (fetched example_client (snd (snd (syncStatus example_client example_config
     [''apiservice-cabundle-injector'', ''unreachable'', ''missing''])))) \<and>
   store example_client ''unreachable'' = Inl (Error False ''connection refused'') \<and>
   \<not> IsNotFound (Error False ''connection refused'') \<and>
   fst (syncStatus example_client example_config
     [''apiservice-cabundle-injector'', ''unreachable'', ''missing'']) =
     (False, Some (Error False ''connection refused'')) \<and>
   condition (fst (snd (syncStatus example_client example_config
     [''apiservice-cabundle-injector'', ''unreachable'', ''missing''])))
     OperatorStatusTypeFailing =
     Some \<lparr>Type = OperatorStatusTypeFailing, Status = ConditionTrue,
           Reason = ''Error getting deployment unreachable'', Message = ''connection refused''\<rparr> \<and>
   condition (fst (snd (syncStatus example_client example_config
     [''apiservice-cabundle-injector'', ''unreachable'', ''missing''])))
     OperatorStatusTypeAvailable =
     Some \<lparr>Type = OperatorStatusTypeAvailable, Status = ConditionFalse,
           Reason = ''ManagedDeploymentsNotReady'',
           Message = ''Error getting deployment unreachable''\<rparr>"
proof -
  let ?S = "syncStatus example_client example_config
     [''apiservice-cabundle-injector'', ''unreachable'', ''missing'']"
  have run: "?S = ((fst (fst ?S), snd (fst ?S)), fst (snd ?S), snd (snd ?S))" by simp
  have s: "store example_client ''unreachable'' = Inl (Error False ''connection refused'')"
    by (simp add: example_client_def example_store_def)
  have m: "''unreachable'' \<in> set (fetched example_client (snd (snd ?S)))"
    by (simp add: example_run_unreachable(2))
  from fetch_error_is_fatal [OF run] m s
  have "\<not> fst (fst ?S) \<and> snd (fst ?S) = Some (Error False ''connection refused'') \<and>
    condition (fst (snd ?S)) OperatorStatusTypeFailing =
      Some \<lparr>Type = OperatorStatusTypeFailing, Status = ConditionTrue,
            Reason = ''Error getting deployment '' @ ''unreachable'',
            Message = ErrorString (Error False ''connection refused'')\<rparr> \<and>
    condition (fst (snd ?S)) OperatorStatusTypeAvailable =
      Some \<lparr>Type = OperatorStatusTypeAvailable, Status = ConditionFalse,
            Reason = ''ManagedDeploymentsNotReady'',
            Message = ''Error getting deployment '' @ ''unreachable''\<rparr>"
    by (metis error.sel(1))
  with m s example_run_unreachable(1) show ?thesis by simp
qed

text \<open>
  C6. For every deployment that syncStatus fetches: if the fetch returns NotFound, or the
  fetched deployment has its deletion timestamp set, or (its deletion timestamp not being
  set) it has zero available replicas, then syncStatus sets Progressing=True with the
  message for the first of these checks that applies (does not exist, is being deleted,
  does not have available replicas), sets Available=False with the same message, and
  returns (false, nil).
\<close>

theorem disqualified_is_progressing:
  assumes "syncStatus cl cfg deployments = ((ready, err), cfg', cl')"
    and "dep \<in> set (fetched cl cl')"
  shows "(\<forall>e. store cl dep = Inl e \<and> IsNotFound e \<longrightarrow>
            \<not> ready \<and> err = None \<and>
            condition cfg' OperatorStatusTypeProgressing =
              Some \<lparr>Type = OperatorStatusTypeProgressing, Status = ConditionTrue,
                    Reason = ''ManagedDeploymentsNotReady'',
                    Message = ''Deployment '' @ dep @ '' does not exist''\<rparr> \<and>
            condition cfg' OperatorStatusTypeAvailable =
              Some \<lparr>Type = OperatorStatusTypeAvailable, Status = ConditionFalse,
                    Reason = ''ManagedDeploymentsNotReady'',
                    Message = ''Deployment '' @ dep @ '' does not exist''\<rparr>) \<and>
         (\<forall>existing. store cl dep = Inr existing \<and> DeletionTimestamp existing \<noteq> None \<longrightarrow>
            \<not> ready \<and> err = None \<and>
            condition cfg' OperatorStatusTypeProgressing =
              Some \<lparr>Type = OperatorStatusTypeProgressing, Status = ConditionTrue,
                    Reason = ''ManagedDeploymentsNotReady'',
                    Message = ''Deployment '' @ dep @ '' is being deleted''\<rparr> \<and>
            condition cfg' OperatorStatusTypeAvailable =
              Some \<lparr>Type = OperatorStatusTypeAvailable, Status = ConditionFalse,
                    Reason = ''ManagedDeploymentsNotReady'',
                    Message = ''Deployment '' @ dep @ '' is being deleted''\<rparr>) \<and>
         (\<forall>existing. store cl dep = Inr existing \<and> DeletionTimestamp existing = None \<and>
              Status_AvailableReplicas existing = 0 \<longrightarrow>
            \<not> ready \<and> err = None \<and>
            condition cfg' OperatorStatusTypeProgressing =
              Some \<lparr>Type = OperatorStatusTypeProgressing, Status = ConditionTrue,
                    Reason = ''ManagedDeploymentsNotReady'',
                    Message = ''Deployment '' @ dep @ '' does not have available replicas''\<rparr> \<and>
            condition cfg' OperatorStatusTypeAvailable =
              Some \<lparr>Type = OperatorStatusTypeAvailable, Status = ConditionFalse,
                    Reason = ''ManagedDeploymentsNotReady'',
                    Message = ''Deployment '' @ dep @ '' does not have available replicas''\<rparr>)"
proof -
  have not_found: "\<not> ready \<and> err = None \<and>
      condition cfg' OperatorStatusTypeProgressing =
        Some \<lparr>Type = OperatorStatusTypeProgressing, Status = ConditionTrue,
              Reason = ''ManagedDeploymentsNotReady'',
              Message = ''Deployment '' @ dep @ '' does not exist''\<rparr> \<and>
      condition cfg' OperatorStatusTypeAvailable =
        Some \<lparr>Type = OperatorStatusTypeAvailable, Status = ConditionFalse,
              Reason = ''ManagedDeploymentsNotReady'',
              Message = ''Deployment '' @ dep @ '' does not exist''\<rparr>"
    if h: "store cl dep = Inl e" "IsNotFound e" for e
  proof -
    have "disqualifies (store cl dep)" using h(1) by (simp add: disqualifies_def)
    with assms obtain pre where
      run: "syncStatus (cl\<lparr>gets := gets cl @ pre\<rparr>) cfg [dep] = ((ready, err), cfg', cl')"
      and d: "disqualifies (store (cl\<lparr>gets := gets cl @ pre\<rparr>) dep)"
      by (rule fetched_disqualified)
    from run h syncStatus_single [OF d, of cfg]
    have "ready = False" "err = None"
      "cfg' = setAvailableFalse (setProgressingTrue cfg ''ManagedDeploymentsNotReady''
                 (''Deployment '' @ dep @ '' does not exist''))
               ''ManagedDeploymentsNotReady'' (''Deployment '' @ dep @ '' does not exist'')"
      by simp_all
    then show ?thesis
      by (simp add: condition_progressing_stop condition_available_stop)
  qed
  have deleted: "\<not> ready \<and> err = None \<and>
      condition cfg' OperatorStatusTypeProgressing =
        Some \<lparr>Type = OperatorStatusTypeProgressing, Status = ConditionTrue,
              Reason = ''ManagedDeploymentsNotReady'',
              Message = ''Deployment '' @ dep @ '' is being deleted''\<rparr> \<and>
      condition cfg' OperatorStatusTypeAvailable =
        Some \<lparr>Type = OperatorStatusTypeAvailable, Status = ConditionFalse,
              Reason = ''ManagedDeploymentsNotReady'',
              Message = ''Deployment '' @ dep @ '' is being deleted''\<rparr>"
    if h: "store cl dep = Inr existing" "DeletionTimestamp existing \<noteq> None" for existing
  proof -
    have "disqualifies (store cl dep)" using h by (simp add: disqualifies_def)
    with assms obtain pre where
      run: "syncStatus (cl\<lparr>gets := gets cl @ pre\<rparr>) cfg [dep] = ((ready, err), cfg', cl')"
      and d: "disqualifies (store (cl\<lparr>gets := gets cl @ pre\<rparr>) dep)"
      by (rule fetched_disqualified)
    from run h syncStatus_single [OF d, of cfg]
    have "ready = False" "err = None"
      "cfg' = setAvailableFalse (setProgressingTrue cfg ''ManagedDeploymentsNotReady''
                 (''Deployment '' @ dep @ '' is being deleted''))
               ''ManagedDeploymentsNotReady'' (''Deployment '' @ dep @ '' is being deleted'')"
      by auto
    then show ?thesis
      by (simp add: condition_progressing_stop condition_available_stop)
  qed
  have unavailable: "\<not> ready \<and> err = None \<and>
      condition cfg' OperatorStatusTypeProgressing =
        Some \<lparr>Type = OperatorStatusTypeProgressing, Status = ConditionTrue,
              Reason = ''ManagedDeploymentsNotReady'',
              Message = ''Deployment '' @ dep @ '' does not have available replicas''\<rparr> \<and>
      condition cfg' OperatorStatusTypeAvailable =
        Some \<lparr>Type = OperatorStatusTypeAvailable, Status = ConditionFalse,
              Reason = ''ManagedDeploymentsNotReady'',
              Message = ''Deployment '' @ dep @ '' does not have available replicas''\<rparr>"
    if h: "store cl dep = Inr existing" "DeletionTimestamp existing = None"
      "Status_AvailableReplicas existing = 0" for existing
  proof -
    have "disqualifies (store cl dep)"
      using h by (simp add: disqualifies_def isDeploymentStatusAvailable_def)
    with assms obtain pre where
      run: "syncStatus (cl\<lparr>gets := gets cl @ pre\<rparr>) cfg [dep] = ((ready, err), cfg', cl')"
      and d: "disqualifies (store (cl\<lparr>gets := gets cl @ pre\<rparr>) dep)"
      by (rule fetched_disqualified)
    from run h syncStatus_single [OF d, of cfg]
    have "ready = False" "err = None"
      "cfg' = setAvailableFalse (setProgressingTrue cfg ''ManagedDeploymentsNotReady''
                 (''Deployment '' @ dep @ '' does not have available replicas''))
               ''ManagedDeploymentsNotReady'' (''Deployment '' @ dep @ '' does not have available replicas'')"
      by auto
    then show ?thesis
      by (simp add: condition_progressing_stop condition_available_stop)
  qed
  from not_found deleted unavailable show ?thesis by blast
qed

lemma example_run_deleted:
  "fst (syncStatus example_client example_config
     [''apiservice-cabundle-injector'', ''deleted'', ''unreachable'']) = (False, None)"
  "fetched example_client (snd (snd (syncStatus example_client example_config
     [''apiservice-cabundle-injector'', ''deleted'', ''unreachable'']))) =
     [''apiservice-cabundle-injector'', ''deleted'']"
  by (simp_all add: example_eval)

theorem disqualified_is_progressing_witness:
  "''deleted'' \<in> set (fetched example_client (snd (snd (syncStatus example_client example_config
     [''apiservice-cabundle-injector'', ''deleted'', ''unreachable''])))) \<and>
   store example_client ''deleted'' = Inr deployment_deleted_unavailable \<and>
   DeletionTimestamp deployment_deleted_unavailable \<noteq> None \<and>
   Status_AvailableReplicas deployment_deleted_unavailable = 0 \<and>
   fst (syncStatus example_client example_config
     [''apiservice-cabundle-injector'', ''deleted'', ''unreachable'']) = (False, None) \<and>
   condition (fst (snd (syncStatus example_client example_config
     [''apiservice-cabundle-injector'', ''deleted'', ''unreachable''])))
     OperatorStatusTypeProgressing =
     Some \<lparr>Type = OperatorStatusTypeProgressing, Status = ConditionTrue,
           Reason = ''ManagedDeploymentsNotReady'',
           Message = ''Deployment deleted is being deleted''\<rparr> \<and>
   condition (fst (snd (syncStatus example_client example_config
     [''apiservice-cabundle-injector'', ''deleted'', ''unreachable''])))
     OperatorStatusTypeAvailable =
     Some \<lparr>Type = OperatorStatusTypeAvailable, Status = ConditionFalse,
           Reason = ''ManagedDeploymentsNotReady'',
           Message = ''Deployment deleted is being deleted''\<rparr>"
proof -
  let ?S = "syncStatus example_client example_config
     [''apiservice-cabundle-injector'', ''deleted'', ''unreachable'']"
  have run: "?S = ((fst (fst ?S), snd (fst ?S)), fst (snd ?S), snd (snd ?S))" by simp
  have s: "store example_client ''deleted'' = Inr deployment_deleted_unavailable"
    "DeletionTimestamp deployment_deleted_unavailable \<noteq> None"
    "Status_AvailableReplicas deployment_deleted_unavailable = 0"
    by (simp_all add: example_client_def example_store_def deployment_deleted_unavailable_def)
  have m: "''deleted'' \<in> set (fetched example_client (snd (snd ?S)))"
    by (simp add: example_run_deleted(2))
  from disqualified_is_progressing [OF run m] s(1,2)
  have "condition (fst (snd ?S)) OperatorStatusTypeProgressing =
      Some \<lparr>Type = OperatorStatusTypeProgressing, Status = ConditionTrue,
            Reason = ''ManagedDeploymentsNotReady'',
            Message = ''Deployment '' @ ''deleted'' @ '' is being deleted''\<rparr> \<and>
    condition (fst (snd ?S)) OperatorStatusTypeAvailable =
      Some \<lparr>Type = OperatorStatusTypeAvailable, Status = ConditionFalse,
            Reason = ''ManagedDeploymentsNotReady'',
            Message = ''Deployment '' @ ''deleted'' @ '' is being deleted''\<rparr>"
    by blast
  with m s example_run_deleted(1) show ?thesis by simp
qed

text \<open>
  C7. Short circuit: let \<open>d\<close>, at position \<open>length pre\<close>, be the first deployment that
  disqualifies (fetch error, NotFound included, deletion timestamp set, or no available
  replica). Two runs that agree on the list up to \<open>d\<close> and on what the store answers for
  these names, and differ in any way after it (other names, other deployment states),
  return the same pair, leave the same operator config and fetch the same names.
\<close>

theorem first_disqualifying_short_circuits:
  assumes "\<forall>p\<in>set pre. \<not> disqualifies (store cl1 p)" and "disqualifies (store cl1 d)"
    and "\<forall>n\<in>set (pre @ [d]). store cl2 n = store cl1 n" and "gets cl2 = gets cl1"
  shows "fst (syncStatus cl1 cfg (pre @ d # suf1)) = fst (syncStatus cl2 cfg (pre @ d # suf2)) \<and>
         fst (snd (syncStatus cl1 cfg (pre @ d # suf1))) =
         fst (snd (syncStatus cl2 cfg (pre @ d # suf2))) \<and>
         gets (snd (snd (syncStatus cl1 cfg (pre @ d # suf1)))) =
         gets (snd (snd (syncStatus cl2 cfg (pre @ d # suf2))))"
proof -
  let ?k1 = "cl1\<lparr>gets := gets cl1 @ pre\<rparr>" and ?k2 = "cl2\<lparr>gets := gets cl2 @ pre\<rparr>"
  have same: "store cl2 d = store cl1 d" using assms(3) by simp
  have pre2: "\<forall>p\<in>set pre. \<not> disqualifies (store cl2 p)" using assms(1,3) by simp
  have d2: "disqualifies (store cl2 d)" using assms(2) same by simp
  have r1: "syncStatus cl1 cfg (pre @ d # suf1) = syncStatus ?k1 cfg [d]"
    by (rule syncStatus_stop [OF assms(1,2)])
  have r2: "syncStatus cl2 cfg (pre @ d # suf2) = syncStatus ?k2 cfg [d]"
    by (rule syncStatus_stop [OF pre2 d2])
  have k1: "disqualifies (store ?k1 d)" using assms(2) by simp
  have k2: "disqualifies (store ?k2 d)" using d2 by simp
  show ?thesis
    unfolding r1 r2 syncStatus_single [OF k1] syncStatus_single [OF k2]
    using same assms(4) by (cases "store cl1 d") simp_all
qed

theorem first_disqualifying_short_circuits_witness:
  "\<not> disqualifies (store example_client ''apiservice-cabundle-injector'') \<and>
   disqualifies (store example_client ''unavailable'') \<and>
   store example_client' ''apiservice-cabundle-injector'' =
     store example_client ''apiservice-cabundle-injector'' \<and>
   store example_client' ''unavailable'' = store example_client ''unavailable'' \<and>
   store example_client' ''service-serving-cert-signer'' \<noteq>
     store example_client ''service-serving-cert-signer'' \<and>
   fst (syncStatus example_client example_config
     [''apiservice-cabundle-injector'', ''unavailable'', ''service-serving-cert-signer'']) =
   fst (syncStatus example_client' example_config
     [''apiservice-cabundle-injector'', ''unavailable'', ''unreachable'', ''deleted'']) \<and>
   fst (snd (syncStatus example_client example_config
     [''apiservice-cabundle-injector'', ''unavailable'', ''service-serving-cert-signer''])) =
   fst (snd (syncStatus example_client' example_config
     [''apiservice-cabundle-injector'', ''unavailable'', ''unreachable'', ''deleted''])) \<and>
   gets (snd (snd (syncStatus example_client example_config
     [''apiservice-cabundle-injector'', ''unavailable'', ''service-serving-cert-signer'']))) =
   gets (snd (snd (syncStatus example_client' example_config
     [''apiservice-cabundle-injector'', ''unavailable'', ''unreachable'', ''deleted''])))"
proof -
  have h: "\<forall>p\<in>set [''apiservice-cabundle-injector'']. \<not> disqualifies (store example_client p)"
    "disqualifies (store example_client ''unavailable'')"
    "\<forall>n\<in>set ([''apiservice-cabundle-injector''] @ [''unavailable'']).
       store example_client' n = store example_client n"
    "gets example_client' = gets example_client"
    "store example_client' ''service-serving-cert-signer'' \<noteq>
     store example_client ''service-serving-cert-signer''"
    by (simp_all add: example_client_def example_client'_def example_store_def
        example_deployments classification deployment_checks)
  from first_disqualifying_short_circuits [OF h(1-4), of example_config
      "[''service-serving-cert-signer'']" "[''unreachable'', ''deleted'']"] h
  show ?thesis by simp
qed

text \<open>
  C10. Frame of syncStatus: the fields of the operator config other than the conditions
  are unchanged, and so is every condition whose type is not Available, Progressing or
  Failing. syncStatus never writes Failing=False: a Failing condition of the result that
  is not True was already in the input; when no error is returned the Failing conditions
  are untouched, and a Failing=True recorded before is still True afterwards.
\<close>

theorem syncStatus_frame:
  assumes "syncStatus cl cfg deployments = ((ready, err), cfg', cl')"
  shows "ServiceCA_Name cfg' = ServiceCA_Name cfg \<and>
    ObservedGeneration (ServiceCA_Status cfg') = ObservedGeneration (ServiceCA_Status cfg) \<and>
    Version (ServiceCA_Status cfg') = Version (ServiceCA_Status cfg) \<and>
    ReadyReplicas (ServiceCA_Status cfg') = ReadyReplicas (ServiceCA_Status cfg) \<and>
    filter (\<lambda>c. Type c \<notin> {OperatorStatusTypeAvailable, OperatorStatusTypeProgressing,
                            OperatorStatusTypeFailing}) (Conditions (ServiceCA_Status cfg')) =
    filter (\<lambda>c. Type c \<notin> {OperatorStatusTypeAvailable, OperatorStatusTypeProgressing,
                            OperatorStatusTypeFailing}) (Conditions (ServiceCA_Status cfg)) \<and>
    (\<forall>c\<in>set (Conditions (ServiceCA_Status cfg')).
       Type c = OperatorStatusTypeFailing \<and> Status c \<noteq> ConditionTrue \<longrightarrow>
       c \<in> set (Conditions (ServiceCA_Status cfg))) \<and>
    (err = None \<longrightarrow>
       filter (\<lambda>c. Type c = OperatorStatusTypeFailing) (Conditions (ServiceCA_Status cfg')) =
       filter (\<lambda>c. Type c = OperatorStatusTypeFailing) (Conditions (ServiceCA_Status cfg))) \<and>
    (\<forall>c. condition cfg OperatorStatusTypeFailing = Some c \<and> Status c = ConditionTrue \<longrightarrow>
       (\<exists>c'. condition cfg' OperatorStatusTypeFailing = Some c' \<and> Status c' = ConditionTrue))"
proof -
  let ?S = "{OperatorStatusTypeAvailable, OperatorStatusTypeProgressing, OperatorStatusTypeFailing}"
  let ?F = OperatorStatusTypeFailing
  have two: "\<exists>x y. cfg' = setCondition (setCondition cfg x) y \<and> Type x \<in> ?S \<and> Type y \<in> ?S \<and>
      (Type x = ?F \<longrightarrow> Status x = ConditionTrue) \<and> Type y \<noteq> ?F \<and>
      (err = None \<longrightarrow> Type x \<noteq> ?F)"
    using assms
  proof (cases rule: syncStatus_writes)
    case (ok a p)
    have types: "Type a \<in> ?S" "Type p \<in> ?S" "Type a \<noteq> ?F" "Type p \<noteq> ?F"
      using ok(2,3) by (simp_all add: condition_types)
    from ok(4) show ?thesis
    proof
      assume "cfg' = setCondition (setCondition cfg a) p"
      with types show ?thesis by blast
    next
      assume "cfg' = setCondition (setCondition cfg p) a"
      with types show ?thesis by blast
    qed
  next
    case (failed f a)
    have "Type f \<in> ?S" "Type a \<in> ?S" "Type a \<noteq> ?F"
      using failed(2,4) by (simp_all add: condition_types)
    with failed(1,3,5) show ?thesis by blast
  qed
  then obtain x y where xy: "cfg' = setCondition (setCondition cfg x) y"
    "Type x \<in> ?S" "Type y \<in> ?S" "Type x = ?F \<longrightarrow> Status x = ConditionTrue" "Type y \<noteq> ?F"
    "err = None \<longrightarrow> Type x \<noteq> ?F"
    by blast
  have fields: "ServiceCA_Name cfg' = ServiceCA_Name cfg"
    "ObservedGeneration (ServiceCA_Status cfg') = ObservedGeneration (ServiceCA_Status cfg)"
    "Version (ServiceCA_Status cfg') = Version (ServiceCA_Status cfg)"
    "ReadyReplicas (ServiceCA_Status cfg') = ReadyReplicas (ServiceCA_Status cfg)"
    by (simp_all add: xy(1) setCondition_fields)
  have others: "filter (\<lambda>c. Type c \<notin> ?S) (Conditions (ServiceCA_Status cfg')) =
                filter (\<lambda>c. Type c \<notin> ?S) (Conditions (ServiceCA_Status cfg))"
    unfolding xy(1)
    using setCondition_filter [of "\<lambda>t. t \<in> ?S" y "setCondition cfg x"]
      setCondition_filter [of "\<lambda>t. t \<in> ?S" x cfg] xy(2,3)
    by simp
  have sub: "set (Conditions (ServiceCA_Status cfg')) \<subseteq>
             insert y (insert x (set (Conditions (ServiceCA_Status cfg))))"
    unfolding xy(1)
    using setCondition_set [of "setCondition cfg x" y] setCondition_set [of cfg x] by blast
  have never_false: "\<forall>c\<in>set (Conditions (ServiceCA_Status cfg')).
       Type c = ?F \<and> Status c \<noteq> ConditionTrue \<longrightarrow> c \<in> set (Conditions (ServiceCA_Status cfg))"
    using sub xy(4,5) by auto
  have untouched: "filter (\<lambda>c. Type c = ?F) (Conditions (ServiceCA_Status cfg')) =
       filter (\<lambda>c. Type c = ?F) (Conditions (ServiceCA_Status cfg))" if "err = None"
    unfolding xy(1)
    using setCondition_filter [of "\<lambda>t. t \<noteq> ?F" y "setCondition cfg x"]
      setCondition_filter [of "\<lambda>t. t \<noteq> ?F" x cfg] xy(5,6) that
    by simp
  have kept: "\<exists>c'. condition cfg' ?F = Some c' \<and> Status c' = ConditionTrue"
    if c: "condition cfg ?F = Some c" "Status c = ConditionTrue" for c
  proof (cases "Type x = ?F")
    case True
    have "condition cfg' ?F = condition (setCondition cfg x) ?F"
      unfolding xy(1) using xy(5) by (intro condition_set_other) simp
    also have "\<dots> = Some x" using condition_set_same [of cfg x] True by simp
    finally show ?thesis using xy(4) True by simp
  next
    case False
    have "condition cfg' ?F = condition (setCondition cfg x) ?F"
      unfolding xy(1) using xy(5) by (intro condition_set_other) simp
    also have "\<dots> = condition cfg ?F" using False by (intro condition_set_other) simp
    finally show ?thesis using c by simp
  qed
  from fields others never_false untouched kept show ?thesis by blast
qed

lemma example_run_complete:
  "fst (syncStatus example_client example_config [''apiservice-cabundle-injector'']) = (True, None)"
  by (simp add: example_eval)

theorem syncStatus_frame_witness:
  "fst (syncStatus example_client example_config [''apiservice-cabundle-injector'']) = (True, None) \<and>
   ServiceCA_Name (fst (snd (syncStatus example_client example_config
     [''apiservice-cabundle-injector'']))) = ''cluster'' \<and>
   filter (\<lambda>c. Type c \<notin> {OperatorStatusTypeAvailable, OperatorStatusTypeProgressing,
                           OperatorStatusTypeFailing})
     (Conditions (ServiceCA_Status (fst (snd (syncStatus example_client example_config
        [''apiservice-cabundle-injector'']))))) =
     [\<lparr>Type = ''Upgradeable'', Status = ConditionTrue, Reason = ''AsExpected'', Message = []\<rparr>] \<and>
   filter (\<lambda>c. Type c = OperatorStatusTypeFailing)
     (Conditions (ServiceCA_Status (fst (snd (syncStatus example_client example_config
        [''apiservice-cabundle-injector'']))))) =
     [\<lparr>Type = ''Failing'', Status = ConditionTrue, Reason = ''OperatorSyncLoopError'',
       Message = ''earlier failure''\<rparr>]"
proof -
  let ?S = "syncStatus example_client example_config [''apiservice-cabundle-injector'']"
  have run: "?S = ((fst (fst ?S), snd (fst ?S)), fst (snd ?S), snd (snd ?S))" by simp
  have e: "snd (fst ?S) = None" by (simp add: example_run_complete)
  from syncStatus_frame [OF run] e example_run_complete show ?thesis
    by (simp add: example_config_def condition_types)
qed

section \<open>Claims about the annotation injector\<close>

lemma single_entry_iff:
  "fmlookup m k = Some v \<and> fcard (fmdom m) = 1 \<longleftrightarrow> m = fmap_of_list [(k, v)]"
proof
  assume a: "fmlookup m k = Some v \<and> fcard (fmdom m) = 1"
  then have "k |\<in>| fmdom m" by (simp add: fmdomI)
  then have "{|k|} |\<subseteq>| fmdom m" by simp
  moreover have "fcard (fmdom m) \<le> fcard {|k|}" using a by (simp add: fcard_finsert_disjoint)
  ultimately have dom: "fmdom m = {|k|}" using fcard_seteq by metis
  show "m = fmap_of_list [(k, v)]"
  proof (rule fmap_ext)
    fix x
    show "fmlookup m x = fmlookup (fmap_of_list [(k, v)]) x"
    proof (cases "x = k")
      case True
      with a show ?thesis by simp
    next
      case False
      with dom have "x |\<notin>| fmdom m" by simp
      then have "fmlookup m x = None" by (rule fmdom_notD)
      with False show ?thesis by simp
    qed
  qed
next
  assume "m = fmap_of_list [(k, v)]"
  then show "fmlookup m k = Some v \<and> fcard (fmdom m) = 1"
    by (simp add: fcard_finsert_disjoint)
qed

lemma ensure_skip:
  "Data current = fmap_of_list [(InjectionDataKey api, ca ic)] \<Longrightarrow>
   ensureConfigMapCABundleInjection api ic current = (None, ic)"
  by (simp add: ensureConfigMapCABundleInjection_def fcard_finsert_disjoint)

lemma ensure_update:
  "Data current \<noteq> fmap_of_list [(InjectionDataKey api, ca ic)] \<Longrightarrow>
   ensureConfigMapCABundleInjection api ic current =
     (update_result (configMapClient ic) (Namespace current)
        (current\<lparr>Data := fmap_of_list [(InjectionDataKey api, ca ic)]\<rparr>),
      ic\<lparr>configMapClient := (configMapClient ic)\<lparr>updates := updates (configMapClient ic) @
        [(Namespace current, current\<lparr>Data := fmap_of_list [(InjectionDataKey api, ca ic)]\<rparr>)]\<rparr>\<rparr>)"
  using single_entry_iff [of "Data current" "InjectionDataKey api" "ca ic"]
  by (auto simp add: ensureConfigMapCABundleInjection_def Update_def Let_def split: option.splits)

lemma Sync_cases:
  "Sync api ic (ConfigMapObject configMap) =
     (if HasInjectCABundleAnnotation api configMap \<and>
         Data configMap \<noteq> fmap_of_list [(InjectionDataKey api, ca ic)]
      then Inr (update_result (configMapClient ic) (Namespace configMap)
                  (configMap\<lparr>Data := fmap_of_list [(InjectionDataKey api, ca ic)]\<rparr>),
                ic\<lparr>configMapClient := (configMapClient ic)\<lparr>updates := updates (configMapClient ic) @
                  [(Namespace configMap,
                    configMap\<lparr>Data := fmap_of_list [(InjectionDataKey api, ca ic)]\<rparr>)]\<rparr>\<rparr>)
      else Inr (None, ic))"
  by (simp add: Sync_def ensure_skip ensure_update)

text \<open>
  C4. On a ConfigMap that does not carry the trigger annotation, whatever its Data, Sync
  returns nil and leaves the controller and its client as they were: no Update is issued.
\<close>

theorem Sync_without_annotation:
  "\<not> HasInjectCABundleAnnotation api configMap \<Longrightarrow>
   Sync api ic (ConfigMapObject configMap) = Inr (None, ic) \<and>
   issued ic (snd (projr (Sync api ic (ConfigMapObject configMap)))) = []"
  by (simp add: Sync_def issued_def)

theorem Sync_without_annotation_witness:
  "\<not> HasInjectCABundleAnnotation example_api plain_configmap \<and>
   Sync example_api example_controller (ConfigMapObject plain_configmap) =
     Inr (None, example_controller) \<and>
   issued example_controller
     (snd (projr (Sync example_api example_controller (ConfigMapObject plain_configmap)))) = []"
  using Sync_without_annotation [of example_api plain_configmap example_controller]
  by (simp add: example_api_def plain_configmap_def issued_def)

text \<open>
  C3. When Sync, on an annotated ConfigMap, issues an Update, the object it submits has a
  Data mapping with exactly one entry, the injection key mapped to the current CA: its
  domain has cardinality 1 and every other key is absent.
\<close>

theorem submitted_data_is_single_entry:
  assumes "HasInjectCABundleAnnotation api configMap"
    and "Sync api ic (ConfigMapObject configMap) = Inr (err, ic')"
    and "(namespace, submitted) \<in> set (issued ic ic')"
  shows "fcard (fmdom (Data submitted)) = 1 \<and>
         fmlookup (Data submitted) (InjectionDataKey api) = Some (ca ic) \<and>
         (\<forall>k. k \<noteq> InjectionDataKey api \<longrightarrow> fmlookup (Data submitted) k = None) \<and>
         Data submitted = fmap_of_list [(InjectionDataKey api, ca ic)]"
proof -
  have "Data submitted = fmap_of_list [(InjectionDataKey api, ca ic)]"
    using assms(2,3) by (auto simp add: Sync_cases issued_def split: if_splits)
  then show ?thesis by (simp add: fcard_finsert_disjoint)
qed

lemma example_sync_annotated:
  "Sync example_api example_controller (ConfigMapObject annotated_configmap) =
     Inr (None, example_controller\<lparr>configMapClient :=
       (configMapClient example_controller)\<lparr>updates := [(''ns'', injected_configmap)]\<rparr>\<rparr>)"
proof -
  have "Data annotated_configmap \<noteq> fmap_of_list [(''service-ca.crt'', ''PEM'')]"
  proof
    assume "Data annotated_configmap = fmap_of_list [(''service-ca.crt'', ''PEM'')]"
    then have "fmlookup (Data annotated_configmap) ''foo'' =
               fmlookup (fmap_of_list [(''service-ca.crt'', ''PEM'')]) ''foo''" by simp
    then show False by (simp add: annotated_configmap_def)
  qed
  then show ?thesis
    by (simp add: Sync_cases example_api_def example_controller_def injected_configmap_def)
      (simp add: annotated_configmap_def)
qed

theorem submitted_data_is_single_entry_witness:
  "HasInjectCABundleAnnotation example_api annotated_configmap \<and>
   (''ns'', injected_configmap) \<in> set (issued example_controller
      (example_controller\<lparr>configMapClient :=
         (configMapClient example_controller)\<lparr>updates := [(''ns'', injected_configmap)]\<rparr>\<rparr>)) \<and>
   fcard (fmdom (Data injected_configmap)) = 1 \<and>
   fmlookup (Data injected_configmap) ''service-ca.crt'' = Some ''PEM'' \<and>
   fmlookup (Data injected_configmap) ''foo'' = None \<and>
   fmlookup (Data annotated_configmap) ''foo'' = Some ''bar''"
proof -
  have a: "HasInjectCABundleAnnotation example_api annotated_configmap"
    by (simp add: example_api_def annotated_configmap_def)
  have i: "(''ns'', injected_configmap) \<in> set (issued example_controller
      (example_controller\<lparr>configMapClient :=
         (configMapClient example_controller)\<lparr>updates := [(''ns'', injected_configmap)]\<rparr>\<rparr>))"
    by (simp add: issued_def example_controller_def)
  from submitted_data_is_single_entry [OF a example_sync_annotated i] a i
  show ?thesis
    by (simp add: example_api_def example_controller_def annotated_configmap_def
        fcard_finsert_disjoint)
qed

text \<open>
  C2, as stated, fails: Sync works on a copy and never changes its input, so a second
  call on the same object finds the same stale Data and issues the Update again.
\<close>

theorem Sync_twice_same_input_counterexample:
  "SyncTwice example_api example_controller (ConfigMapObject annotated_configmap) =
     Inr (None, None, example_controller\<lparr>configMapClient :=
       (configMapClient example_controller)\<lparr>updates :=
          [(''ns'', injected_configmap), (''ns'', injected_configmap)]\<rparr>\<rparr>) \<and>
   length (issued example_controller (example_controller\<lparr>configMapClient :=
       (configMapClient example_controller)\<lparr>updates :=
          [(''ns'', injected_configmap), (''ns'', injected_configmap)]\<rparr>\<rparr>)) = 2"
proof -
  let ?ic1 = "example_controller\<lparr>configMapClient :=
       (configMapClient example_controller)\<lparr>updates := [(''ns'', injected_configmap)]\<rparr>\<rparr>"
  have stale: "Data annotated_configmap \<noteq> fmap_of_list [(''service-ca.crt'', ''PEM'')]"
  proof
    assume "Data annotated_configmap = fmap_of_list [(''service-ca.crt'', ''PEM'')]"
    then have "fmlookup (Data annotated_configmap) ''foo'' =
               fmlookup (fmap_of_list [(''service-ca.crt'', ''PEM'')]) ''foo''" by simp
    then show False by (simp add: annotated_configmap_def)
  qed
  have second: "Sync example_api ?ic1 (ConfigMapObject annotated_configmap) =
     Inr (None, example_controller\<lparr>configMapClient :=
       (configMapClient example_controller)\<lparr>updates :=
          [(''ns'', injected_configmap), (''ns'', injected_configmap)]\<rparr>\<rparr>)"
    using stale
    by (simp add: Sync_cases example_api_def example_controller_def injected_configmap_def)
      (simp add: annotated_configmap_def)
  have twice: "SyncTwice example_api example_controller (ConfigMapObject annotated_configmap) =
     Inr (None, None, example_controller\<lparr>configMapClient :=
       (configMapClient example_controller)\<lparr>updates :=
          [(''ns'', injected_configmap), (''ns'', injected_configmap)]\<rparr>\<rparr>)"
    by (simp add: SyncTwice_def example_sync_annotated second)
  have "length (issued example_controller (example_controller\<lparr>configMapClient :=
       (configMapClient example_controller)\<lparr>updates :=
          [(''ns'', injected_configmap), (''ns'', injected_configmap)]\<rparr>\<rparr>)) = 2"
    by (simp add: issued_def example_controller_def)
  with twice show ?thesis by (rule conjI)
qed

text \<open>
  C2, amended. One Sync issues at most one Update, and exactly one when the ConfigMap is
  annotated and its Data is not already the single entry injection key, current CA; the
  object it submits is its input with Data replaced by that entry. A following Sync on
  the object submitted is a no-op: it returns nil and issues no Update. In particular,
  when Data already is exactly that single entry, Sync issues no Update at all.
\<close>

theorem Sync_on_submitted_is_noop:
  assumes "Sync api ic (ConfigMapObject configMap) = Inr (err, ic')"
  shows "(issued ic ic' = [] \<or>
          issued ic ic' =
            [(Namespace configMap, configMap\<lparr>Data := fmap_of_list [(InjectionDataKey api, ca ic)]\<rparr>)]) \<and>
         (HasInjectCABundleAnnotation api configMap \<and>
          Data configMap \<noteq> fmap_of_list [(InjectionDataKey api, ca ic)] \<longrightarrow>
            issued ic ic' =
              [(Namespace configMap, configMap\<lparr>Data := fmap_of_list [(InjectionDataKey api, ca ic)]\<rparr>)]) \<and>
         Sync api ic' (ConfigMapObject (configMap\<lparr>Data := fmap_of_list [(InjectionDataKey api, ca ic)]\<rparr>)) =
           Inr (None, ic') \<and>
         (fmlookup (Data configMap) (InjectionDataKey api) = Some (ca ic) \<and>
          fcard (fmdom (Data configMap)) = 1 \<longrightarrow> err = None \<and> ic' = ic \<and> issued ic ic' = [])"
proof -
  have ca: "ca ic' = ca ic"
    using assms by (auto simp add: Sync_cases split: if_splits)
  have one: "issued ic ic' = [] \<or>
          issued ic ic' =
            [(Namespace configMap, configMap\<lparr>Data := fmap_of_list [(InjectionDataKey api, ca ic)]\<rparr>)]"
    using assms by (auto simp add: Sync_cases issued_def split: if_splits)
  have exactly: "issued ic ic' =
      [(Namespace configMap, configMap\<lparr>Data := fmap_of_list [(InjectionDataKey api, ca ic)]\<rparr>)]"
    if "HasInjectCABundleAnnotation api configMap"
      "Data configMap \<noteq> fmap_of_list [(InjectionDataKey api, ca ic)]"
    using assms that by (auto simp add: Sync_cases issued_def)
  have again: "Sync api ic' (ConfigMapObject (configMap\<lparr>Data := fmap_of_list [(InjectionDataKey api, ca ic)]\<rparr>)) =
           Inr (None, ic')"
    by (simp add: Sync_cases ca)
  have already: "err = None \<and> ic' = ic \<and> issued ic ic' = []"
    if "fmlookup (Data configMap) (InjectionDataKey api) = Some (ca ic) \<and>
        fcard (fmdom (Data configMap)) = 1"
  proof -
    from that have "Data configMap = fmap_of_list [(InjectionDataKey api, ca ic)]"
      by (simp only: single_entry_iff)
    with assms show ?thesis by (simp add: Sync_cases issued_def)
  qed
  from one exactly again already show ?thesis by blast
qed

theorem Sync_on_submitted_is_noop_witness:
  "Sync example_api example_controller (ConfigMapObject annotated_configmap) =
     Inr (None, example_controller\<lparr>configMapClient :=
       (configMapClient example_controller)\<lparr>updates := [(''ns'', injected_configmap)]\<rparr>\<rparr>) \<and>
   Sync example_api (example_controller\<lparr>configMapClient :=
       (configMapClient example_controller)\<lparr>updates := [(''ns'', injected_configmap)]\<rparr>\<rparr>)
     (ConfigMapObject injected_configmap) =
     Inr (None, example_controller\<lparr>configMapClient :=
       (configMapClient example_controller)\<lparr>updates := [(''ns'', injected_configmap)]\<rparr>\<rparr>)"
  using Sync_on_submitted_is_noop [OF example_sync_annotated] example_sync_annotated
  by (simp add: example_api_def example_controller_def injected_configmap_def)

end
